theory Spec2Isabelle
  imports Main "HOL-Library.Monad_Syntax"
begin

section \<open>Go slices\<close>

text \<open>
  A Go slice value is either \<^verbatim>\<open>nil\<close> or a (possibly empty) sequence of elements.
  The two are told apart by the program (\<^verbatim>\<open>var xs []T\<close> against \<^verbatim>\<open>[]T{}\<close>) and
  by the JSON decoder (an absent or \<^verbatim>\<open>null\<close> member against \<^verbatim>\<open>[]\<close>), so the
  model keeps both.
\<close>

datatype 'a slice = NilSlice | Slice "'a list"

text \<open>The elements a \<^verbatim>\<open>range\<close> loop visits, in order; none for \<^verbatim>\<open>nil\<close>.\<close>

fun elems :: "'a slice \<Rightarrow> 'a list" where
  "elems NilSlice = []"
| "elems (Slice xs) = xs"

text \<open>The builtin \<^verbatim>\<open>len\<close>.\<close>

definition len :: "'a slice \<Rightarrow> nat" where
  "len s = length (elems s)"

text \<open>
  The builtin \<^verbatim>\<open>append(s, x)\<close> with one element: the result is never \<^verbatim>\<open>nil\<close>.
\<close>

definition append :: "'a slice \<Rightarrow> 'a \<Rightarrow> 'a slice" where
  "append s x = Slice (elems s @ [x])"

section \<open>Provider-shaped entities\<close>

text \<open>
  The structs of \<^verbatim>\<open>internal/spotify/spotify.go\<close>. Field names carry a short prefix
  of their struct, since several structs share \<^verbatim>\<open>Name\<close>, \<^verbatim>\<open>Images\<close>, ...
  The Go \<^verbatim>\<open>int\<close> fields are only ever copied, so they are integers here.
\<close>

record SpotifyAlbumImage =
  ai_Height :: int
  ai_Width :: int
  ai_URL :: string

record SpotifyPlaylistImage =
  pi_Height :: int
  pi_Width :: int
  pi_URL :: string

record SpotifyExternalURL =
  eu_Spotify :: string

record SpotifyArtist =
  ar_Name :: string
  ar_IntegrationID :: string

text \<open>
  \<^verbatim>\<open>SpotifyTrack\<close> embeds a \<^verbatim>\<open>SpotifyAlbum\<close>, which embeds a
  \<^verbatim>\<open>SpotifyTracksResult\<close>, which holds a slice of \<^verbatim>\<open>SpotifyTrack\<close>: the three
  are one mutually recursive datatype.
\<close>

datatype SpotifyTrack = SpotifyTrack
    (st_Album: SpotifyAlbum)
    (st_Name: string)
    (st_PreviewURL: string)
    (st_TrackURI: string)
    (st_IntegrationID: string)
    (st_DurationMS: int)
    (st_ExternalURL: SpotifyExternalURL)
    (st_Artists: "SpotifyArtist slice")
and SpotifyAlbum = SpotifyAlbum
    (sa_Name: string)
    (sa_Images: "SpotifyAlbumImage slice")
    (sa_URI: string)
    (sa_ExternalURL: SpotifyExternalURL)
    (sa_IntegrationID: string)
    (sa_ReleaseDate: string)
    (sa_Artists: "SpotifyArtist slice")
    (sa_TracksCollection: SpotifyTracksResult)
and SpotifyTracksResult = SpotifyTracksResult
    (tr_Items: "SpotifyTrack slice")

text \<open>The assignment \<^verbatim>\<open>track.Album = sa\<close> on a track held by value.\<close>

fun set_Album :: "SpotifyTrack \<Rightarrow> SpotifyAlbum \<Rightarrow> SpotifyTrack" where
  "set_Album (SpotifyTrack al n p u i d e ars) sa = SpotifyTrack sa n p u i d e ars"

record SpotifyPlaylistTrack =
  pt_Track :: SpotifyTrack

record SpotifyPlaylistTracks =
  pts_Items :: "SpotifyPlaylistTrack slice"

record SpotifyPlaylist =
  sp_Name :: string
  sp_Images :: "SpotifyPlaylistImage slice"
  sp_URI :: string
  sp_ExternalURL :: SpotifyExternalURL
  sp_IntegrationID :: string
  sp_TracksCollection :: SpotifyPlaylistTracks

record SpotifyAlbumsResult =
  ars_Items :: "SpotifyAlbum slice"

record SpotifyPlaylistsResult =
  prs_Items :: "SpotifyPlaylist slice"

record SpotifyTrackSearchResult =
  sr_ResultCollection :: SpotifyTracksResult
  sr_AlbumCollection :: SpotifyAlbumsResult
  sr_PlaylistCollection :: SpotifyPlaylistsResult

section \<open>Output entities\<close>

record MusicArtist =
  ma_Name :: string
  ma_IntegrationID :: string

text \<open>\<^verbatim>\<open>MusicTrack\<close> of \<^verbatim>\<open>internal/spotify/spotify.go\<close>: the artists are a slice of records.\<close>

record MusicTrack =
  mt_Name :: string
  mt_PreviewURL :: string
  mt_AlbumName :: string
  mt_AlbumArt :: "SpotifyAlbumImage slice"
  mt_AlbumReleaseDate :: string
  mt_IntegrationID :: string
  mt_Source :: string
  mt_ExternalURL :: string
  mt_Artists :: "MusicArtist slice"

record MusicAlbum =
  mal_Name :: string
  mal_AlbumArt :: "SpotifyAlbumImage slice"
  mal_ReleaseDate :: string
  mal_Artists :: "MusicArtist slice"
  mal_Tracks :: "MusicTrack slice"
  mal_IntegrationID :: string

record MusicPlaylist =
  mp_Name :: string
  mp_PlaylistArt :: "SpotifyPlaylistImage slice"
  mp_Tracks :: "MusicTrack slice"
  mp_IntegrationID :: string

record MusicSearchResult =
  msr_Tracks :: "MusicTrack slice"
  msr_Albums :: "MusicAlbum slice"
  msr_Playlists :: "MusicPlaylist slice"

text \<open>
  The second revision of the package (the file that logs with the standard \<^verbatim>\<open>log\<close>
  package) declares \<^verbatim>\<open>MusicTrack.Artists\<close> as one \<^verbatim>\<open>string\<close>. Its types and
  functions carry the suffix \<open>_str\<close>.
\<close>

record MusicTrack_str =
  mts_Name :: string
  mts_PreviewURL :: string
  mts_AlbumName :: string
  mts_AlbumArt :: "SpotifyAlbumImage slice"
  mts_AlbumReleaseDate :: string
  mts_IntegrationID :: string
  mts_Source :: string
  mts_ExternalURL :: string
  mts_Artists :: string

record MusicPlaylist_str =
  mps_Name :: string
  mps_PlaylistArt :: "SpotifyPlaylistImage slice"
  mps_Tracks :: "MusicTrack_str slice"
  mps_IntegrationID :: string

section \<open>The translator of \<^verbatim>\<open>internal/spotify/spotify.go\<close>\<close>

text \<open>
  A loop \<^verbatim>\<open>for _, x := range xs { acc = append(acc, f(x)) }\<close> is a left fold over the
  elements of \<open>xs\<close> that starts from the value \<open>acc\<close> has before the loop.
\<close>

definition ConvertToMusicTrack :: "SpotifyTrack \<Rightarrow> MusicTrack" where
  "ConvertToMusicTrack st =
     (let musicTrack = \<lparr>
            mt_Name = st_Name st,
            mt_PreviewURL = st_PreviewURL st,
            mt_AlbumName = sa_Name (st_Album st),
            mt_AlbumArt = sa_Images (st_Album st),
            mt_AlbumReleaseDate = sa_ReleaseDate (st_Album st),
            mt_IntegrationID = st_IntegrationID st,
            mt_Source = ''spotify'',
            mt_ExternalURL = eu_Spotify (st_ExternalURL st),
            mt_Artists = NilSlice \<rparr>;
          musicTrack = musicTrack\<lparr> mt_Artists := Slice [] \<rparr>
      in foldl (\<lambda>musicTrack artist.
                  let musicArtist = \<lparr> ma_Name = ar_Name artist,
                                      ma_IntegrationID = ar_IntegrationID artist \<rparr>
                  in musicTrack\<lparr> mt_Artists := append (mt_Artists musicTrack) musicArtist \<rparr>)
               musicTrack (elems (st_Artists st)))"

definition ConvertToMusicPlaylist :: "SpotifyPlaylist \<Rightarrow> MusicPlaylist" where
  "ConvertToMusicPlaylist sp =
     (let playlist = \<lparr>
            mp_Name = sp_Name sp,
            mp_PlaylistArt = sp_Images sp,
            mp_Tracks = NilSlice,
            mp_IntegrationID = sp_IntegrationID sp \<rparr>
      in if len (pts_Items (sp_TracksCollection sp)) > 0
         then foldl (\<lambda>playlist track.
                       playlist\<lparr> mp_Tracks :=
                         append (mp_Tracks playlist) (ConvertToMusicTrack (pt_Track track)) \<rparr>)
                    playlist (elems (pts_Items (sp_TracksCollection sp)))
         else playlist)"

definition ConvertToMusicAlbum :: "SpotifyAlbum \<Rightarrow> MusicAlbum" where
  "ConvertToMusicAlbum sa =
     (let ma = \<lparr>
            mal_Name = sa_Name sa,
            mal_AlbumArt = sa_Images sa,
            mal_ReleaseDate = sa_ReleaseDate sa,
            mal_Artists = NilSlice,
            mal_Tracks = NilSlice,
            mal_IntegrationID = sa_IntegrationID sa \<rparr>;
          ma = ma\<lparr> mal_Artists := Slice [] \<rparr>;
          ma = foldl (\<lambda>ma artist.
                        let musicArtist = \<lparr> ma_Name = ar_Name artist,
                                            ma_IntegrationID = ar_IntegrationID artist \<rparr>
                        in ma\<lparr> mal_Artists := append (mal_Artists ma) musicArtist \<rparr>)
                     ma (elems (sa_Artists sa))
      in if len (tr_Items (sa_TracksCollection sa)) > 0
         then foldl (\<lambda>ma track.
                       let track = set_Album track sa
                       in ma\<lparr> mal_Tracks := append (mal_Tracks ma) (ConvertToMusicTrack track) \<rparr>)
                    ma (elems (tr_Items (sa_TracksCollection sa)))
         else ma)"

section \<open>The translator of the second revision\<close>

text \<open>
  \<^verbatim>\<open>strings.Join\<close> of the Go standard library: nothing for no element, the element
  itself for one, and otherwise the first element followed by the separator and the
  next element, for each further element.
\<close>

definition strings_Join :: "string slice \<Rightarrow> string \<Rightarrow> string" where
  "strings_Join es sep =
     (case elems es of
        [] \<Rightarrow> ''''
      | [e] \<Rightarrow> e
      | e # rest \<Rightarrow> foldl (\<lambda>b s. b @ sep @ s) e rest)"

definition ConvertToMusicTrack_str :: "SpotifyTrack \<Rightarrow> MusicTrack_str" where
  "ConvertToMusicTrack_str st =
     (let musicTrack = \<lparr>
            mts_Name = st_Name st,
            mts_PreviewURL = st_PreviewURL st,
            mts_AlbumName = sa_Name (st_Album st),
            mts_AlbumArt = sa_Images (st_Album st),
            mts_AlbumReleaseDate = sa_ReleaseDate (st_Album st),
            mts_IntegrationID = st_IntegrationID st,
            mts_Source = ''spotify'',
            mts_ExternalURL = eu_Spotify (st_ExternalURL st),
            mts_Artists = '''' \<rparr>;
          artistNames = foldl (\<lambda>artistNames artist. append artistNames (ar_Name artist))
                          NilSlice (elems (st_Artists st))
      in musicTrack\<lparr> mts_Artists := strings_Join artistNames '', '' \<rparr>)"

definition ConvertToMusicPlaylist_str :: "SpotifyPlaylist \<Rightarrow> MusicPlaylist_str" where
  "ConvertToMusicPlaylist_str sp =
     (let playlist = \<lparr>
            mps_Name = sp_Name sp,
            mps_PlaylistArt = sp_Images sp,
            mps_Tracks = NilSlice,
            mps_IntegrationID = sp_IntegrationID sp \<rparr>
      in if len (pts_Items (sp_TracksCollection sp)) > 0
         then foldl (\<lambda>playlist track.
                       playlist\<lparr> mps_Tracks :=
                         append (mps_Tracks playlist) (ConvertToMusicTrack_str (pt_Track track)) \<rparr>)
                    playlist (elems (pts_Items (sp_TracksCollection sp)))
         else playlist)"

section \<open>The search-result translation\<close>

text \<open>
  \<^verbatim>\<open>NewMusicSearchResultFromSpotify\<close> returns a pointer to a freshly made result, never
  \<^verbatim>\<open>nil\<close>; the model returns the result itself. Its three \<^verbatim>\<open>for\<close> statements run one after the
  other on the same \<^verbatim>\<open>msr\<close>.
\<close>

definition NewMusicSearchResultFromSpotify :: "SpotifyTrackSearchResult \<Rightarrow> MusicSearchResult" where
  "NewMusicSearchResultFromSpotify spotifyResult =
     (let msr = \<lparr> msr_Tracks = NilSlice, msr_Albums = NilSlice, msr_Playlists = NilSlice \<rparr>;
          msr = foldl (\<lambda>msr track.
                   let mt = \<lparr>
                         mt_Name = st_Name track,
                         mt_PreviewURL = st_PreviewURL track,
                         mt_AlbumName = sa_Name (st_Album track),
                         mt_AlbumArt = sa_Images (st_Album track),
                         mt_AlbumReleaseDate = sa_ReleaseDate (st_Album track),
                         mt_IntegrationID = st_IntegrationID track,
                         mt_Source = ''spotify'',
                         mt_ExternalURL = eu_Spotify (st_ExternalURL track),
                         mt_Artists = NilSlice \<rparr>;
                       mt = foldl (\<lambda>mt artist.
                              let a = \<lparr> ma_Name = ar_Name artist,
                                        ma_IntegrationID = ar_IntegrationID artist \<rparr>
                              in mt\<lparr> mt_Artists := append (mt_Artists mt) a \<rparr>)
                            mt (elems (sa_Artists (st_Album track)))
                   in msr\<lparr> msr_Tracks := append (msr_Tracks msr) mt \<rparr>)
                 msr (elems (tr_Items (sr_ResultCollection spotifyResult)));
          msr = foldl (\<lambda>msr album.
                   let ma = \<lparr>
                         mal_Name = sa_Name album,
                         mal_AlbumArt = sa_Images album,
                         mal_ReleaseDate = sa_ReleaseDate album,
                         mal_Artists = NilSlice,
                         mal_Tracks = NilSlice,
                         mal_IntegrationID = sa_IntegrationID album \<rparr>;
                       ma = foldl (\<lambda>ma artist.
                              let a = \<lparr> ma_Name = ar_Name artist,
                                        ma_IntegrationID = ar_IntegrationID artist \<rparr>
                              in ma\<lparr> mal_Artists := append (mal_Artists ma) a \<rparr>)
                            ma (elems (sa_Artists album))
                   in msr\<lparr> msr_Albums := append (msr_Albums msr) ma \<rparr>)
                 msr (elems (ars_Items (sr_AlbumCollection spotifyResult)));
          msr = foldl (\<lambda>msr playlist.
                   let mp = \<lparr>
                         mp_Name = sp_Name playlist,
                         mp_PlaylistArt = sp_Images playlist,
                         mp_Tracks = NilSlice,
                         mp_IntegrationID = sp_IntegrationID playlist \<rparr>
                   in msr\<lparr> msr_Playlists := append (msr_Playlists msr) mp \<rparr>)
                 msr (elems (prs_Items (sr_PlaylistCollection spotifyResult)))
      in msr)"

section \<open>Token acquisition and the client\<close>

text \<open>
  Every Go \<^verbatim>\<open>error\<close> of this package is a message: \<^verbatim>\<open>errors.New\<close> makes one, and
  the errors handed back by \<^verbatim>\<open>net/http\<close> are values of the same type given by the
  environment. A result \<^verbatim>\<open>(T, error)\<close> is a pair whose second component is \<open>None\<close>
  for \<^verbatim>\<open>nil\<close>.
\<close>

datatype error = errors_New string

record Spotify =
  Token :: string
  ClientID :: string
  ClientSecret :: string

text \<open>
  What the token endpoint answers: the status code and the body. The body is the JSON
  value its bytes spell, or \<open>None\<close> when the bytes are not one valid JSON text. A string
  of the value, a key of an object included, is the Go string it decodes to, in UTF-8; a
  number is kept as its text. The members of an object are in the order of the text and
  may repeat a key.
\<close>

datatype json =
    JNull
  | JBool bool
  | JNumber string
  | JString string
  | JArray "json list"
  | JObject "(string \<times> json) list"

record token_Response =
  tk_StatusCode :: int
  tk_Body :: "json option"

text \<open>
  The environment of a token request: whether \<^verbatim>\<open>http.NewRequest\<close> fails, and what
  \<^verbatim>\<open>client.Do\<close> returns (an error or a response).
\<close>

record token_endpoint =
  token_NewRequest :: "error option"
  token_Do :: "error + token_Response"

text \<open>The requests that reach the network, in the order they are sent.\<close>

datatype request =
    TokenRequest string string
  | GetRequest string string

subsection \<open>Decoding the token response\<close>

text \<open>
  \<^verbatim>\<open>encoding/json\<close> binds a member of an object to the struct field whose name (here
  the tag \<^verbatim>\<open>access_token\<close>) equals the key, or else equals it under case folding.
  For a name of ASCII bytes that has an \<^verbatim>\<open>s\<close> or a \<^verbatim>\<open>k\<close> the folding is the library's
  \<^verbatim>\<open>equalFoldRight\<close>: byte by byte, an ASCII byte of the key matches the byte of the
  name if it is the same byte or both are the same letter in either case
  (\<^verbatim>\<open>b & caseMask\<close> clears the bit that tells the cases apart); a byte of the key that
  is not ASCII matches only as the first byte of U+017F (long s, bytes C5 BF) against
  \<^verbatim>\<open>s\<close> or \<^verbatim>\<open>S\<close>, or of U+212A (Kelvin sign, bytes E2 84 AA) against \<^verbatim>\<open>k\<close> or
  \<^verbatim>\<open>K\<close>; and the key must end where the name does.
\<close>

definition and_caseMask :: "char \<Rightarrow> nat" where
  "and_caseMask b = (let n = of_char b in if (n div 32) mod 2 = 1 then n - 32 else n)"

fun equalFoldRight :: "string \<Rightarrow> string \<Rightarrow> bool" where
  "equalFoldRight [] t = (t = [])"
| "equalFoldRight (sb # s) [] = False"
| "equalFoldRight (sb # s) (tb # t) =
     (if (of_char tb :: nat) < 128
      then (if sb \<noteq> tb
            then (let sbUpper = and_caseMask sb
                  in if of_char CHR ''A'' \<le> sbUpper \<and> sbUpper \<le> of_char CHR ''Z''
                     then (if sbUpper \<noteq> and_caseMask tb then False else equalFoldRight s t)
                     else False)
            else equalFoldRight s t)
      else if sb = CHR ''s'' \<or> sb = CHR ''S''
      then (case t of
              b2 # t' \<Rightarrow> tb = CHR 0xC5 \<and> b2 = CHR 0xBF \<and> equalFoldRight s t'
            | _ \<Rightarrow> False)
      else if sb = CHR ''k'' \<or> sb = CHR ''K''
      then (case t of
              b2 # b3 # t' \<Rightarrow>
                tb = CHR 0xE2 \<and> b2 = CHR 0x84 \<and> b3 = CHR 0xAA \<and> equalFoldRight s t'
            | _ \<Rightarrow> False)
      else False)"

text \<open>
  \<^verbatim>\<open>json.Unmarshal(respbody, &spotTokenResp)\<close> for the struct with the one field
  \<^verbatim>\<open>AccessToken\<close>. Bytes that are not valid JSON, and a value that is not an object,
  store nothing. The members of an object are taken in order: a member whose key is
  bound to the field stores its value there if the value is a string, and stores
  nothing if it is \<^verbatim>\<open>null\<close> or of another type (the decoder notes a type error and
  goes on); a later member overwrites an earlier one. The error that
  \<^verbatim>\<open>json.Unmarshal\<close> returns is never looked at by the code and is left out.
\<close>

record spotifyTokenResponse =
  AccessToken :: string

definition Unmarshal :: "json option \<Rightarrow> spotifyTokenResponse \<Rightarrow> spotifyTokenResponse" where
  "Unmarshal data v =
     (case data of
        Some (JObject members) \<Rightarrow>
          foldl (\<lambda>v (key, val).
                   if key = ''access_token'' \<or> equalFoldRight ''access_token'' key
                   then (case val of JString s \<Rightarrow> v\<lparr> AccessToken := s \<rparr> | _ \<Rightarrow> v)
                   else v)
                v members
      | _ \<Rightarrow> v)"

text \<open>
  The methods on \<^verbatim>\<open>*Spotify\<close> take the receiver and return it updated, with the
  requests they sent.
\<close>

definition refreshSpotifyToken ::
    "token_endpoint \<Rightarrow> Spotify \<Rightarrow> (string \<times> error option) \<times> Spotify \<times> request list" where
  "refreshSpotifyToken w o1 =
     (case token_NewRequest w of
        Some err \<Rightarrow> (('''', Some err), o1, [])
      | None \<Rightarrow>
         (let sent = [TokenRequest (ClientID o1) (ClientSecret o1)]
          in case token_Do w of
               Inl err \<Rightarrow> (('''', Some (errors_New ''spotify token error'')), o1, sent)
             | Inr resp \<Rightarrow>
                 if tk_StatusCode resp \<noteq> 200
                 then (('''', Some (errors_New ''spotify token error'')), o1, sent)
                 else
                   (let spotTokenResp = \<lparr> AccessToken = '''' \<rparr>;
                        spotTokenResp = Unmarshal (tk_Body resp) spotTokenResp
                    in if AccessToken spotTokenResp = ''''
                       then (('''', Some (errors_New
                                ''Problems getting spotify access token from JSON'')), o1, sent)
                       else ((AccessToken spotTokenResp, None),
                             o1\<lparr> Token := AccessToken spotTokenResp \<rparr>, sent))))"

text \<open>
  The token a body gives, said of the body alone: of the members of the object whose
  key is \<^verbatim>\<open>access_token\<close> up to the folding above and whose value is a string, the
  value of the last; the empty string when there is none, when the body is not an
  object, and when it is not JSON. This is the reading of ``the \<^verbatim>\<open>access_token\<close> field
  of the body'' that the code is compared with.
\<close>

fun string_for_access_token :: "string \<times> json \<Rightarrow> bool" where
  "string_for_access_token (key, JString s) = equalFoldRight ''access_token'' key"
| "string_for_access_token (key, _) = False"

fun string_of :: "json \<Rightarrow> string" where
  "string_of (JString s) = s"
| "string_of _ = ''''"

definition body_access_token :: "json option \<Rightarrow> string" where
  "body_access_token data =
     (case data of
        Some (JObject members) \<Rightarrow>
          (if filter string_for_access_token members = [] then ''''
           else string_of (snd (last (filter string_for_access_token members))))
      | _ \<Rightarrow> '''')"

definition getToken ::
    "token_endpoint \<Rightarrow> Spotify \<Rightarrow> (string \<times> error option) \<times> Spotify \<times> request list" where
  "getToken w o1 =
     (if length (Token o1) > 0 then ((Token o1, None), o1, [])
      else refreshSpotifyToken w o1)"

text \<open>\<^verbatim>\<open>NewSpotify\<close> returns a pointer: \<open>None\<close> is \<^verbatim>\<open>nil\<close>.\<close>

definition NewSpotify ::
    "token_endpoint \<Rightarrow> string \<Rightarrow> string \<Rightarrow> (Spotify option \<times> error option) \<times> request list" where
  "NewSpotify w clientID clientSecret =
     (let sp = \<lparr> Token = '''', ClientID = clientID, ClientSecret = clientSecret \<rparr>
      in case getToken w sp of
           ((token, err), sp, sent) \<Rightarrow>
             if err \<noteq> None then ((None, err), sent)
             else ((Some (sp\<lparr> Token := token \<rparr>), None), sent))"

section \<open>Fetching a playlist and the entry point\<close>

text \<open>
  What the playlist endpoint answers: the status code, and what
  \<^verbatim>\<open>json.Unmarshal(body, &playlist)\<close> leaves in \<^verbatim>\<open>playlist\<close> together with the error
  it returns. \<^verbatim>\<open>PlaylistFromID\<close> is the one of \<^verbatim>\<open>internal/spotify/spotify.go\<close>, the
  package that \<^verbatim>\<open>cmd/spdump/spdump.go\<close> imports; the second revision differs in the
  text of one error message.
\<close>

record playlist_Response =
  pl_StatusCode :: int
  pl_Unmarshal :: "SpotifyPlaylist \<times> error option"

record playlist_endpoint =
  playlist_NewRequest :: "error option"
  playlist_Do :: "error + playlist_Response"

text \<open>The zero value \<^verbatim>\<open>SpotifyPlaylist{}\<close>.\<close>

definition zero_SpotifyPlaylist :: SpotifyPlaylist where
  "zero_SpotifyPlaylist = \<lparr>
     sp_Name = '''', sp_Images = NilSlice, sp_URI = '''',
     sp_ExternalURL = \<lparr> eu_Spotify = '''' \<rparr>, sp_IntegrationID = '''',
     sp_TracksCollection = \<lparr> pts_Items = NilSlice \<rparr> \<rparr>"

definition PlaylistFromID ::
    "token_endpoint \<Rightarrow> playlist_endpoint \<Rightarrow> Spotify \<Rightarrow> string
       \<Rightarrow> (SpotifyPlaylist \<times> error option) \<times> Spotify \<times> request list" where
  "PlaylistFromID tw pw o1 ID =
     (let playlist = zero_SpotifyPlaylist;
          trackURL = ''https://api.spotify.com/v1/playlists/'' @ ID
      in case playlist_NewRequest pw of
           Some err \<Rightarrow> ((playlist, Some err), o1, [])
         | None \<Rightarrow>
            (case getToken tw o1 of
               ((token, err), o1, sent) \<Rightarrow>
                 if err \<noteq> None then ((playlist, err), o1, sent)
                 else
                   (let sent = sent @ [GetRequest trackURL (''Bearer '' @ token)]
                    in case playlist_Do pw of
                         Inl err \<Rightarrow>
                           ((playlist, Some (errors_New
                               ''error making call to spotify to get album information'')),
                            o1, sent)
                       | Inr resp \<Rightarrow>
                           if pl_StatusCode resp \<noteq> 200
                           then ((playlist, Some (errors_New
                                   ''error making call to spotify to get album information'')),
                                 o1, sent)
                           else (case pl_Unmarshal resp of
                                   (playlist, err) \<Rightarrow>
                                     if err \<noteq> None then ((playlist, err), o1, sent)
                                     else ((playlist, None), o1, sent)))))"

text \<open>
  \<^verbatim>\<open>main\<close> of \<^verbatim>\<open>cmd/spdump/spdump.go\<close>. Its environment: the parsed \<^verbatim>\<open>--playlist\<close>
  flag, the result of reading and of parsing \<^verbatim>\<open>config.toml\<close>, the two configuration
  values (\<open>None\<close> when the key is missing or not a string, so that the type assertion
  \<^verbatim>\<open>.(string)\<close> panics), and the two endpoints. It ends by printing the marshalled
  playlist or by a panic. Log lines are left out.
\<close>

record env =
  flag_playlist :: string
  ReadFile_config :: "error + string"
  toml_Load :: "string \<Rightarrow> error option"
  Get_client_id :: "string option"
  Get_client_secret :: "string option"
  token_ep :: token_endpoint
  playlist_ep :: playlist_endpoint

datatype panic = panic error | runtime_panic

datatype outcome = Panicked panic | Printed MusicPlaylist

definition main :: "env \<Rightarrow> outcome \<times> request list" where
  "main e =
     (case ReadFile_config e of
        Inl err \<Rightarrow> (Panicked (panic err), [])
      | Inr tomlData \<Rightarrow>
         (case toml_Load e tomlData of
            Some err \<Rightarrow> (Panicked (panic err), [])
          | None \<Rightarrow>
             (case Get_client_id e of
                None \<Rightarrow> (Panicked runtime_panic, [])
              | Some clientID \<Rightarrow>
                 (case Get_client_secret e of
                    None \<Rightarrow> (Panicked runtime_panic, [])
                  | Some clientSecret \<Rightarrow>
                     (case NewSpotify (token_ep e) clientID clientSecret of
                        ((_, Some err), sent) \<Rightarrow> (Panicked (panic err), sent)
                      | ((None, None), sent) \<Rightarrow> (Panicked runtime_panic, sent)
                      | ((Some sp, None), sent) \<Rightarrow>
                         (case PlaylistFromID (token_ep e) (playlist_ep e) sp (flag_playlist e) of
                            ((playlist, Some err), sp, sent') \<Rightarrow>
                              (Panicked (panic err), sent @ sent')
                          | ((playlist, None), sp, sent') \<Rightarrow>
                              (Printed (ConvertToMusicPlaylist playlist), sent @ sent')))))))"

section \<open>Concrete inputs\<close>

text \<open>The zero value \<^verbatim>\<open>SpotifyAlbum{}\<close>.\<close>

definition zero_SpotifyAlbum :: SpotifyAlbum where
  "zero_SpotifyAlbum =
     SpotifyAlbum '''' NilSlice '''' \<lparr> eu_Spotify = '''' \<rparr> '''' '''' NilSlice
       (SpotifyTracksResult NilSlice)"

text \<open>
  The playlist decoded from
  \<^verbatim>\<open>{name:"Road Trip", id:"abc123", images:[], tracks:{items:[{track:{name:"Song A",
  id:"t1", external_urls:{spotify:"url1"}, album:{name:"Al1", images:[],
  release_date:"2020-01-01"}, artists:[{name:"Artist X"}]}}]}}\<close>:
  a member that is absent leaves the zero value of its field, and \<^verbatim>\<open>[]\<close> decodes to
  an empty slice that is not \<^verbatim>\<open>nil\<close>.
\<close>

definition RoadTrip :: SpotifyPlaylist where
  "RoadTrip = \<lparr>
     sp_Name = ''Road Trip'',
     sp_Images = Slice [],
     sp_URI = '''',
     sp_ExternalURL = \<lparr> eu_Spotify = '''' \<rparr>,
     sp_IntegrationID = ''abc123'',
     sp_TracksCollection = \<lparr> pts_Items = Slice [\<lparr> pt_Track =
        SpotifyTrack
          (SpotifyAlbum ''Al1'' (Slice []) '''' \<lparr> eu_Spotify = '''' \<rparr> '''' ''2020-01-01''
             NilSlice (SpotifyTracksResult NilSlice))
          ''Song A'' '''' '''' ''t1'' 0 \<lparr> eu_Spotify = ''url1'' \<rparr>
          (Slice [\<lparr> ar_Name = ''Artist X'', ar_IntegrationID = '''' \<rparr>]) \<rparr>] \<rparr> \<rparr>"

text \<open>
  A track by two artists on an album credited to a third, and an album that nests one
  track whose embedded album is the zero value (as in the provider's album payload).
\<close>

definition FeaturedTrack :: SpotifyTrack where
  "FeaturedTrack =
     SpotifyTrack
       (SpotifyAlbum ''Compilation'' (Slice [\<lparr> ai_Height = 64, ai_Width = 64, ai_URL = ''img'' \<rparr>])
          '''' \<lparr> eu_Spotify = '''' \<rparr> ''al9'' ''1999''
          (Slice [\<lparr> ar_Name = ''Various'', ar_IntegrationID = ''a0'' \<rparr>])
          (SpotifyTracksResult NilSlice))
       ''Duet'' '''' '''' ''t7'' 1000 \<lparr> eu_Spotify = ''url7'' \<rparr>
       (Slice [\<lparr> ar_Name = ''Ann'', ar_IntegrationID = ''a1'' \<rparr>,
               \<lparr> ar_Name = ''Bob'', ar_IntegrationID = ''a2'' \<rparr>])"

definition BareTrack :: SpotifyTrack where
  "BareTrack =
     SpotifyTrack zero_SpotifyAlbum ''Intro'' '''' '''' ''t3'' 0 \<lparr> eu_Spotify = '''' \<rparr>
       (Slice [])"

definition FullAlbum :: SpotifyAlbum where
  "FullAlbum =
     SpotifyAlbum ''LP'' (Slice [\<lparr> ai_Height = 300, ai_Width = 300, ai_URL = ''cover'' \<rparr>])
       '''' \<lparr> eu_Spotify = '''' \<rparr> ''al1'' ''2021-05-05''
       (Slice [\<lparr> ar_Name = ''Ann'', ar_IntegrationID = ''a1'' \<rparr>])
       (SpotifyTracksResult (Slice [BareTrack]))"

text \<open>
  Token endpoints. One answers 200 with \<^verbatim>\<open>{"access_token":""}\<close>, one 200 with
  \<^verbatim>\<open>{"token_type":"Bearer","expires_in":3600}\<close>, one 401 with a body that is not JSON,
  one 200 with \<^verbatim>\<open>{"access_token":"BQD","token_type":"Bearer"}\<close>, and one 200 with
  \<^verbatim>\<open>{"Access_Token":"BQD"}\<close>.
\<close>

definition EmptyTokenEndpoint :: token_endpoint where
  "EmptyTokenEndpoint = \<lparr>
     token_NewRequest = None,
     token_Do = Inr \<lparr> tk_StatusCode = 200,
                      tk_Body = Some (JObject [(''access_token'', JString '''')]) \<rparr> \<rparr>"

definition MissingTokenEndpoint :: token_endpoint where
  "MissingTokenEndpoint = \<lparr>
     token_NewRequest = None,
     token_Do = Inr \<lparr> tk_StatusCode = 200,
                      tk_Body = Some (JObject [(''token_type'', JString ''Bearer''),
                                               (''expires_in'', JNumber ''3600'')]) \<rparr> \<rparr>"

definition UnauthorizedEndpoint :: token_endpoint where
  "UnauthorizedEndpoint = \<lparr>
     token_NewRequest = None,
     token_Do = Inr \<lparr> tk_StatusCode = 401, tk_Body = None \<rparr> \<rparr>"

definition GrantingEndpoint :: token_endpoint where
  "GrantingEndpoint = \<lparr>
     token_NewRequest = None,
     token_Do = Inr \<lparr> tk_StatusCode = 200,
                      tk_Body = Some (JObject [(''access_token'', JString ''BQD''),
                                               (''token_type'', JString ''Bearer'')]) \<rparr> \<rparr>"

definition CaseVariantEndpoint :: token_endpoint where
  "CaseVariantEndpoint = \<lparr>
     token_NewRequest = None,
     token_Do = Inr \<lparr> tk_StatusCode = 200,
                      tk_Body = Some (JObject [(''Access_Token'', JString ''BQD'')]) \<rparr> \<rparr>"

definition UnauthorizedEnv :: env where
  "UnauthorizedEnv = \<lparr>
     flag_playlist = ''3rpdjX0UZGjjmk3A86FrU3'',
     ReadFile_config = Inr ''[spotify]'',
     toml_Load = (\<lambda>_. None),
     Get_client_id = Some ''id'',
     Get_client_secret = Some ''secret'',
     token_ep = UnauthorizedEndpoint,
     playlist_ep = \<lparr>
       playlist_NewRequest = None,
       playlist_Do = Inr \<lparr> pl_StatusCode = 200, pl_Unmarshal = (RoadTrip, None) \<rparr> \<rparr> \<rparr>"

section \<open>Slices in memory\<close>

text \<open>
  The translators hand slices of their input on to their output and build new slices
  with \<^verbatim>\<open>append\<close>, which may write into the spare capacity of an existing backing
  array. Whether a call can change its input is therefore a question about backing
  arrays, and the second model of the translators keeps them explicit.

  A slice value is \<^verbatim>\<open>nil\<close> or a header: the backing array it points into, the offset
  of its first element there, its length and its capacity. The backing arrays of one
  element type are a list, an address being an index into it; an array that is
  allocated is added at the end.
\<close>

type_synonym addr = nat

datatype hslice = HNil | HSlice addr nat nat nat

type_synonym 'a arrays = "'a list list"

text \<open>The builtins \<^verbatim>\<open>len\<close> and \<^verbatim>\<open>cap\<close>.\<close>

fun hlen :: "hslice \<Rightarrow> nat" where
  "hlen HNil = 0"
| "hlen (HSlice a off n c) = n"

fun hcap :: "hslice \<Rightarrow> nat" where
  "hcap HNil = 0"
| "hcap (HSlice a off n c) = c"

text \<open>
  The elements of a slice, and the element \<^verbatim>\<open>s[i]\<close>. A header that points outside the
  allocated arrays cannot arise in Go; reading through one is \<open>None\<close>.
\<close>

definition hread :: "'a arrays \<Rightarrow> hslice \<Rightarrow> 'a list option" where
  "hread m s =
     (case s of
        HNil \<Rightarrow> Some []
      | HSlice a off n c \<Rightarrow>
          if a < length m \<and> off + n \<le> length (m ! a)
          then Some (take n (drop off (m ! a))) else None)"

definition hindex :: "'a arrays \<Rightarrow> hslice \<Rightarrow> nat \<Rightarrow> 'a option" where
  "hindex m s i =
     (case hread m s of
        None \<Rightarrow> None
      | Some xs \<Rightarrow> if i < length xs then Some (xs ! i) else None)"

text \<open>The literal \<^verbatim>\<open>[]T{}\<close>: a slice of length and capacity 0 that is not \<^verbatim>\<open>nil\<close>.\<close>

definition hempty :: "'a arrays \<Rightarrow> 'a arrays \<times> hslice" where
  "hempty m = (m @ [[]], HSlice (length m) 0 0 0)"

text \<open>
  \<^verbatim>\<open>append(s, x)\<close>. With spare capacity the element is written in place, behind the
  last element of \<open>s\<close> in its backing array, and the result shares that array. Without,
  the elements are copied to a new array with room for at least one more; how much
  more is the runtime's choice, the parameter \<open>grow\<close> (of the old capacity and the
  length needed). The unused cells of a new array hold the zero value \<open>z\<close>.
\<close>

definition growslice ::
    "'a \<Rightarrow> (nat \<Rightarrow> nat \<Rightarrow> nat) \<Rightarrow> 'a arrays \<Rightarrow> hslice \<Rightarrow> 'a \<Rightarrow> ('a arrays \<times> hslice) option" where
  "growslice z grow m s x =
     (case hread m s of
        None \<Rightarrow> None
      | Some xs \<Rightarrow>
          let c' = max (hlen s + 1) (grow (hcap s) (hlen s + 1))
          in Some (m @ [xs @ x # replicate (c' - hlen s - 1) z],
                   HSlice (length m) 0 (hlen s + 1) c'))"

definition happend ::
    "'a \<Rightarrow> (nat \<Rightarrow> nat \<Rightarrow> nat) \<Rightarrow> 'a arrays \<Rightarrow> hslice \<Rightarrow> 'a \<Rightarrow> ('a arrays \<times> hslice) option" where
  "happend z grow m s x =
     (case s of
        HNil \<Rightarrow> growslice z grow m s x
      | HSlice a off n c \<Rightarrow>
          if n < c
          then (if a < length m \<and> off + n < length (m ! a)
                then Some (m[a := (m ! a)[off + n := x]], HSlice a off (n + 1) c)
                else None)
          else growslice z grow m s x)"

text \<open>
  \<^verbatim>\<open>for i, x := range s\<close> evaluates \<open>s\<close> once and then runs its body for
  \<open>i = 0, ..., len(s) - 1\<close>; the body reads \<^verbatim>\<open>s[i]\<close> from memory as it is then. The
  loop stops with \<open>None\<close> when a step does.
\<close>

definition range_loop :: "nat \<Rightarrow> (nat \<Rightarrow> 's \<Rightarrow> 's option) \<Rightarrow> 's \<Rightarrow> 's option" where
  "range_loop n body s =
     foldl (\<lambda>r i. case r of None \<Rightarrow> None | Some s \<Rightarrow> body i s) (Some s) [0..<n]"

subsection \<open>The structs, with headers for their slices\<close>

text \<open>
  A struct value is held by value: its strings and numbers are its own, and only the
  arrays behind its slice headers are shared. The embedded
  \<^verbatim>\<open>SpotifyTracksResult\<close> and \<^verbatim>\<open>SpotifyPlaylistTracks\<close> are the header of their one field.
\<close>

record SpotifyAlbum_mem =
  sam_Name :: string
  sam_Images :: hslice
  sam_URI :: string
  sam_ExternalURL :: SpotifyExternalURL
  sam_IntegrationID :: string
  sam_ReleaseDate :: string
  sam_Artists :: hslice
  sam_TracksCollection :: hslice

record SpotifyTrack_mem =
  stm_Album :: SpotifyAlbum_mem
  stm_Name :: string
  stm_PreviewURL :: string
  stm_TrackURI :: string
  stm_IntegrationID :: string
  stm_DurationMS :: int
  stm_ExternalURL :: SpotifyExternalURL
  stm_Artists :: hslice

record SpotifyPlaylistTrack_mem =
  ptm_Track :: SpotifyTrack_mem

record SpotifyPlaylist_mem =
  spm_Name :: string
  spm_Images :: hslice
  spm_URI :: string
  spm_ExternalURL :: SpotifyExternalURL
  spm_IntegrationID :: string
  spm_TracksCollection :: hslice

record MusicTrack_mem =
  mtm_Name :: string
  mtm_PreviewURL :: string
  mtm_AlbumName :: string
  mtm_AlbumArt :: hslice
  mtm_AlbumReleaseDate :: string
  mtm_IntegrationID :: string
  mtm_Source :: string
  mtm_ExternalURL :: string
  mtm_Artists :: hslice

record MusicAlbum_mem =
  malm_Name :: string
  malm_AlbumArt :: hslice
  malm_ReleaseDate :: string
  malm_Artists :: hslice
  malm_Tracks :: hslice
  malm_IntegrationID :: string

record MusicPlaylist_mem =
  mpm_Name :: string
  mpm_PlaylistArt :: hslice
  mpm_Tracks :: hslice
  mpm_IntegrationID :: string

record MusicTrack_str_mem =
  mtsm_Name :: string
  mtsm_PreviewURL :: string
  mtsm_AlbumName :: string
  mtsm_AlbumArt :: hslice
  mtsm_AlbumReleaseDate :: string
  mtsm_IntegrationID :: string
  mtsm_Source :: string
  mtsm_ExternalURL :: string
  mtsm_Artists :: string

record MusicPlaylist_str_mem =
  mpsm_Name :: string
  mpsm_PlaylistArt :: hslice
  mpsm_Tracks :: hslice
  mpsm_IntegrationID :: string

text \<open>
  The memory: the backing arrays, by element type. The first five types occur in the
  translators' inputs, the others only in what the translators build.
\<close>

record memory =
  AlbumImages :: "SpotifyAlbumImage arrays"
  PlaylistImages :: "SpotifyPlaylistImage arrays"
  Artists :: "SpotifyArtist arrays"
  Tracks :: "SpotifyTrack_mem arrays"
  PlaylistTracks :: "SpotifyPlaylistTrack_mem arrays"
  MusicArtists :: "MusicArtist arrays"
  MusicTracks :: "MusicTrack_mem arrays"
  Names :: "string arrays"
  MusicTracks_str :: "MusicTrack_str_mem arrays"

subsection \<open>The translators on memory\<close>

text \<open>
  The same five functions, statement by statement, with every slice operation acting on
  memory. The zero values fill the unused cells of the arrays that \<^verbatim>\<open>append\<close>
  allocates. A result is the value returned and the memory after the call, or \<open>None\<close>
  if a slice operation failed.
\<close>

definition zero_MusicArtist :: MusicArtist where
  "zero_MusicArtist = \<lparr> ma_Name = '''', ma_IntegrationID = '''' \<rparr>"

definition zero_MusicTrack_mem :: MusicTrack_mem where
  "zero_MusicTrack_mem = \<lparr>
     mtm_Name = '''', mtm_PreviewURL = '''', mtm_AlbumName = '''', mtm_AlbumArt = HNil,
     mtm_AlbumReleaseDate = '''', mtm_IntegrationID = '''', mtm_Source = '''',
     mtm_ExternalURL = '''', mtm_Artists = HNil \<rparr>"

definition ConvertToMusicTrack_mem ::
    "(nat \<Rightarrow> nat \<Rightarrow> nat) \<Rightarrow> SpotifyTrack_mem \<Rightarrow> memory \<Rightarrow> (MusicTrack_mem \<times> memory) option" where
  "ConvertToMusicTrack_mem grow st h =
     (let musicTrack = \<lparr>
            mtm_Name = stm_Name st,
            mtm_PreviewURL = stm_PreviewURL st,
            mtm_AlbumName = sam_Name (stm_Album st),
            mtm_AlbumArt = sam_Images (stm_Album st),
            mtm_AlbumReleaseDate = sam_ReleaseDate (stm_Album st),
            mtm_IntegrationID = stm_IntegrationID st,
            mtm_Source = ''spotify'',
            mtm_ExternalURL = eu_Spotify (stm_ExternalURL st),
            mtm_Artists = HNil \<rparr>;
          (m, e) = hempty (MusicArtists h);
          h = h\<lparr> MusicArtists := m \<rparr>;
          musicTrack = musicTrack\<lparr> mtm_Artists := e \<rparr>
      in range_loop (hlen (stm_Artists st))
           (\<lambda>i (musicTrack, h). do {
               artist \<leftarrow> hindex (Artists h) (stm_Artists st) i;
               let musicArtist = \<lparr> ma_Name = ar_Name artist,
                                   ma_IntegrationID = ar_IntegrationID artist \<rparr>;
               (m, s) \<leftarrow> happend zero_MusicArtist grow (MusicArtists h)
                           (mtm_Artists musicTrack) musicArtist;
               Some (musicTrack\<lparr> mtm_Artists := s \<rparr>, h\<lparr> MusicArtists := m \<rparr>)
             })
           (musicTrack, h))"

definition zero_MusicTrack_str_mem :: MusicTrack_str_mem where
  "zero_MusicTrack_str_mem = \<lparr>
     mtsm_Name = '''', mtsm_PreviewURL = '''', mtsm_AlbumName = '''', mtsm_AlbumArt = HNil,
     mtsm_AlbumReleaseDate = '''', mtsm_IntegrationID = '''', mtsm_Source = '''',
     mtsm_ExternalURL = '''', mtsm_Artists = '''' \<rparr>"

definition ConvertToMusicPlaylist_mem ::
    "(nat \<Rightarrow> nat \<Rightarrow> nat) \<Rightarrow> SpotifyPlaylist_mem \<Rightarrow> memory
       \<Rightarrow> (MusicPlaylist_mem \<times> memory) option" where
  "ConvertToMusicPlaylist_mem grow sp h =
     (let playlist = \<lparr>
            mpm_Name = spm_Name sp,
            mpm_PlaylistArt = spm_Images sp,
            mpm_Tracks = HNil,
            mpm_IntegrationID = spm_IntegrationID sp \<rparr>
      in if hlen (spm_TracksCollection sp) > 0
         then range_loop (hlen (spm_TracksCollection sp))
                (\<lambda>i (playlist, h). do {
                    track \<leftarrow> hindex (PlaylistTracks h) (spm_TracksCollection sp) i;
                    (mt, h) \<leftarrow> ConvertToMusicTrack_mem grow (ptm_Track track) h;
                    (m, s) \<leftarrow> happend zero_MusicTrack_mem grow (MusicTracks h)
                                (mpm_Tracks playlist) mt;
                    Some (playlist\<lparr> mpm_Tracks := s \<rparr>, h\<lparr> MusicTracks := m \<rparr>)
                  })
                (playlist, h)
         else Some (playlist, h))"

definition ConvertToMusicAlbum_mem ::
    "(nat \<Rightarrow> nat \<Rightarrow> nat) \<Rightarrow> SpotifyAlbum_mem \<Rightarrow> memory
       \<Rightarrow> (MusicAlbum_mem \<times> memory) option" where
  "ConvertToMusicAlbum_mem grow sa h =
     (let ma = \<lparr>
            malm_Name = sam_Name sa,
            malm_AlbumArt = sam_Images sa,
            malm_ReleaseDate = sam_ReleaseDate sa,
            malm_Artists = HNil,
            malm_Tracks = HNil,
            malm_IntegrationID = sam_IntegrationID sa \<rparr>;
          (m, e) = hempty (MusicArtists h);
          h = h\<lparr> MusicArtists := m \<rparr>;
          ma = ma\<lparr> malm_Artists := e \<rparr>
      in do {
           (ma, h) \<leftarrow> range_loop (hlen (sam_Artists sa))
              (\<lambda>i (ma, h). do {
                  artist \<leftarrow> hindex (Artists h) (sam_Artists sa) i;
                  let musicArtist = \<lparr> ma_Name = ar_Name artist,
                                      ma_IntegrationID = ar_IntegrationID artist \<rparr>;
                  (m, s) \<leftarrow> happend zero_MusicArtist grow (MusicArtists h)
                              (malm_Artists ma) musicArtist;
                  Some (ma\<lparr> malm_Artists := s \<rparr>, h\<lparr> MusicArtists := m \<rparr>)
                })
              (ma, h);
           if hlen (sam_TracksCollection sa) > 0
           then range_loop (hlen (sam_TracksCollection sa))
                  (\<lambda>i (ma, h). do {
                      track \<leftarrow> hindex (Tracks h) (sam_TracksCollection sa) i;
                      let track = track\<lparr> stm_Album := sa \<rparr>;
                      (mt, h) \<leftarrow> ConvertToMusicTrack_mem grow track h;
                      (m, s) \<leftarrow> happend zero_MusicTrack_mem grow (MusicTracks h)
                                  (malm_Tracks ma) mt;
                      Some (ma\<lparr> malm_Tracks := s \<rparr>, h\<lparr> MusicTracks := m \<rparr>)
                    })
                  (ma, h)
           else Some (ma, h)
         })"

definition ConvertToMusicTrack_str_mem ::
    "(nat \<Rightarrow> nat \<Rightarrow> nat) \<Rightarrow> SpotifyTrack_mem \<Rightarrow> memory
       \<Rightarrow> (MusicTrack_str_mem \<times> memory) option" where
  "ConvertToMusicTrack_str_mem grow st h =
     (let musicTrack = \<lparr>
            mtsm_Name = stm_Name st,
            mtsm_PreviewURL = stm_PreviewURL st,
            mtsm_AlbumName = sam_Name (stm_Album st),
            mtsm_AlbumArt = sam_Images (stm_Album st),
            mtsm_AlbumReleaseDate = sam_ReleaseDate (stm_Album st),
            mtsm_IntegrationID = stm_IntegrationID st,
            mtsm_Source = ''spotify'',
            mtsm_ExternalURL = eu_Spotify (stm_ExternalURL st),
            mtsm_Artists = '''' \<rparr>;
          artistNames = HNil
      in do {
           (artistNames, h) \<leftarrow> range_loop (hlen (stm_Artists st))
              (\<lambda>i (artistNames, h). do {
                  artist \<leftarrow> hindex (Artists h) (stm_Artists st) i;
                  (m, s) \<leftarrow> happend '''' grow (Names h) artistNames (ar_Name artist);
                  Some (s, h\<lparr> Names := m \<rparr>)
                })
              (artistNames, h);
           es \<leftarrow> hread (Names h) artistNames;
           Some (musicTrack\<lparr> mtsm_Artists := strings_Join (Slice es) '', '' \<rparr>, h)
         })"

definition ConvertToMusicPlaylist_str_mem ::
    "(nat \<Rightarrow> nat \<Rightarrow> nat) \<Rightarrow> SpotifyPlaylist_mem \<Rightarrow> memory
       \<Rightarrow> (MusicPlaylist_str_mem \<times> memory) option" where
  "ConvertToMusicPlaylist_str_mem grow sp h =
     (let playlist = \<lparr>
            mpsm_Name = spm_Name sp,
            mpsm_PlaylistArt = spm_Images sp,
            mpsm_Tracks = HNil,
            mpsm_IntegrationID = spm_IntegrationID sp \<rparr>
      in if hlen (spm_TracksCollection sp) > 0
         then range_loop (hlen (spm_TracksCollection sp))
                (\<lambda>i (playlist, h). do {
                    track \<leftarrow> hindex (PlaylistTracks h) (spm_TracksCollection sp) i;
                    (mt, h) \<leftarrow> ConvertToMusicTrack_str_mem grow (ptm_Track track) h;
                    (m, s) \<leftarrow> happend zero_MusicTrack_str_mem grow (MusicTracks_str h)
                                (mpsm_Tracks playlist) mt;
                    Some (playlist\<lparr> mpsm_Tracks := s \<rparr>, h\<lparr> MusicTracks_str := m \<rparr>)
                  })
                (playlist, h)
         else Some (playlist, h))"

subsection \<open>Values held in memory\<close>

text \<open>
  \<open>repr_slice R m s v\<close>: the header \<open>s\<close> holds the slice value \<open>v\<close> in the arrays
  \<open>m\<close>, element by element up to \<open>R\<close>, and is \<^verbatim>\<open>nil\<close> exactly when \<open>v\<close> is. The
  predicates that follow say the same of each struct, field by field.
\<close>

definition repr_slice :: "('h \<Rightarrow> 'a \<Rightarrow> bool) \<Rightarrow> 'h arrays \<Rightarrow> hslice \<Rightarrow> 'a slice \<Rightarrow> bool" where
  "repr_slice R m s v =
     (case hread m s of
        None \<Rightarrow> False
      | Some hs \<Rightarrow>
          (case v of
             NilSlice \<Rightarrow> s = HNil
           | Slice xs \<Rightarrow> s \<noteq> HNil \<and> list_all2 R hs xs))"

primrec repr_SpotifyTrack :: "SpotifyTrack \<Rightarrow> memory \<Rightarrow> SpotifyTrack_mem \<Rightarrow> bool"
    and repr_SpotifyAlbum :: "SpotifyAlbum \<Rightarrow> memory \<Rightarrow> SpotifyAlbum_mem \<Rightarrow> bool"
    and repr_SpotifyTracksResult :: "SpotifyTracksResult \<Rightarrow> memory \<Rightarrow> hslice \<Rightarrow> bool" where
  "repr_SpotifyTrack (SpotifyTrack al n p u i d e ars) h st =
     (repr_SpotifyAlbum al h (stm_Album st) \<and> stm_Name st = n \<and> stm_PreviewURL st = p
      \<and> stm_TrackURI st = u \<and> stm_IntegrationID st = i \<and> stm_DurationMS st = d
      \<and> stm_ExternalURL st = e \<and> repr_slice (=) (Artists h) (stm_Artists st) ars)"
| "repr_SpotifyAlbum (SpotifyAlbum n imgs u e i r ars tc) h sa =
     (sam_Name sa = n \<and> repr_slice (=) (AlbumImages h) (sam_Images sa) imgs \<and> sam_URI sa = u
      \<and> sam_ExternalURL sa = e \<and> sam_IntegrationID sa = i \<and> sam_ReleaseDate sa = r
      \<and> repr_slice (=) (Artists h) (sam_Artists sa) ars
      \<and> repr_SpotifyTracksResult tc h (sam_TracksCollection sa))"
| "repr_SpotifyTracksResult (SpotifyTracksResult items) h s =
     repr_slice (\<lambda>st p. p st) (Tracks h) s (map_slice (\<lambda>t. repr_SpotifyTrack t h) items)"

definition repr_MusicTrack :: "memory \<Rightarrow> MusicTrack_mem \<Rightarrow> MusicTrack \<Rightarrow> bool" where
  "repr_MusicTrack h m mt =
     (mtm_Name m = mt_Name mt \<and> mtm_PreviewURL m = mt_PreviewURL mt
      \<and> mtm_AlbumName m = mt_AlbumName mt
      \<and> repr_slice (=) (AlbumImages h) (mtm_AlbumArt m) (mt_AlbumArt mt)
      \<and> mtm_AlbumReleaseDate m = mt_AlbumReleaseDate mt
      \<and> mtm_IntegrationID m = mt_IntegrationID mt \<and> mtm_Source m = mt_Source mt
      \<and> mtm_ExternalURL m = mt_ExternalURL mt
      \<and> repr_slice (=) (MusicArtists h) (mtm_Artists m) (mt_Artists mt))"

definition repr_SpotifyPlaylist :: "SpotifyPlaylist \<Rightarrow> memory \<Rightarrow> SpotifyPlaylist_mem \<Rightarrow> bool" where
  "repr_SpotifyPlaylist sp h m =
     (spm_Name m = sp_Name sp
      \<and> repr_slice (=) (PlaylistImages h) (spm_Images m) (sp_Images sp)
      \<and> spm_URI m = sp_URI sp \<and> spm_ExternalURL m = sp_ExternalURL sp
      \<and> spm_IntegrationID m = sp_IntegrationID sp
      \<and> repr_slice (\<lambda>tm t. repr_SpotifyTrack (pt_Track t) h (ptm_Track tm))
            (PlaylistTracks h) (spm_TracksCollection m) (pts_Items (sp_TracksCollection sp)))"

definition repr_MusicPlaylist :: "memory \<Rightarrow> MusicPlaylist_mem \<Rightarrow> MusicPlaylist \<Rightarrow> bool" where
  "repr_MusicPlaylist h m mp =
     (mpm_Name m = mp_Name mp
      \<and> repr_slice (=) (PlaylistImages h) (mpm_PlaylistArt m) (mp_PlaylistArt mp)
      \<and> repr_slice (repr_MusicTrack h) (MusicTracks h) (mpm_Tracks m) (mp_Tracks mp)
      \<and> mpm_IntegrationID m = mp_IntegrationID mp)"

definition repr_MusicAlbum :: "memory \<Rightarrow> MusicAlbum_mem \<Rightarrow> MusicAlbum \<Rightarrow> bool" where
  "repr_MusicAlbum h m ma =
     (malm_Name m = mal_Name ma
      \<and> repr_slice (=) (AlbumImages h) (malm_AlbumArt m) (mal_AlbumArt ma)
      \<and> malm_ReleaseDate m = mal_ReleaseDate ma
      \<and> repr_slice (=) (MusicArtists h) (malm_Artists m) (mal_Artists ma)
      \<and> repr_slice (repr_MusicTrack h) (MusicTracks h) (malm_Tracks m) (mal_Tracks ma)
      \<and> malm_IntegrationID m = mal_IntegrationID ma)"

definition repr_MusicTrack_str :: "memory \<Rightarrow> MusicTrack_str_mem \<Rightarrow> MusicTrack_str \<Rightarrow> bool" where
  "repr_MusicTrack_str h m mt =
     (mtsm_Name m = mts_Name mt \<and> mtsm_PreviewURL m = mts_PreviewURL mt
      \<and> mtsm_AlbumName m = mts_AlbumName mt
      \<and> repr_slice (=) (AlbumImages h) (mtsm_AlbumArt m) (mts_AlbumArt mt)
      \<and> mtsm_AlbumReleaseDate m = mts_AlbumReleaseDate mt
      \<and> mtsm_IntegrationID m = mts_IntegrationID mt \<and> mtsm_Source m = mts_Source mt
      \<and> mtsm_ExternalURL m = mts_ExternalURL mt
      \<and> mtsm_Artists m = mts_Artists mt)"

definition repr_MusicPlaylist_str ::
    "memory \<Rightarrow> MusicPlaylist_str_mem \<Rightarrow> MusicPlaylist_str \<Rightarrow> bool" where
  "repr_MusicPlaylist_str h m mp =
     (mpsm_Name m = mps_Name mp
      \<and> repr_slice (=) (PlaylistImages h) (mpsm_PlaylistArt m) (mps_PlaylistArt mp)
      \<and> repr_slice (repr_MusicTrack_str h) (MusicTracks_str h) (mpsm_Tracks m) (mps_Tracks mp)
      \<and> mpsm_IntegrationID m = mps_IntegrationID mp)"

text \<open>
  \<open>extends m m'\<close>: every array of \<open>m\<close> is still there in \<open>m'\<close>, unchanged.
  \<open>frame h h'\<close>: from \<open>h\<close> to \<open>h'\<close> the arrays of the input types are the same, and
  the arrays of the other types that existed in \<open>h\<close> are unchanged.
  \<open>own_acc base m s xs\<close>: the slice \<open>s\<close> holds \<open>xs\<close> and is \<^verbatim>\<open>nil\<close> or fills the front
  of an array allocated at or after address \<open>base\<close>.
\<close>

definition extends :: "'a arrays \<Rightarrow> 'a arrays \<Rightarrow> bool" where
  "extends m m' = (take (length m) m' = m)"

definition frame :: "memory \<Rightarrow> memory \<Rightarrow> bool" where
  "frame h h' =
     (AlbumImages h' = AlbumImages h \<and> PlaylistImages h' = PlaylistImages h
      \<and> Artists h' = Artists h \<and> Tracks h' = Tracks h
      \<and> PlaylistTracks h' = PlaylistTracks h
      \<and> extends (MusicArtists h) (MusicArtists h')
      \<and> extends (MusicTracks h) (MusicTracks h')
      \<and> extends (Names h) (Names h')
      \<and> extends (MusicTracks_str h) (MusicTracks_str h'))"

definition own_acc :: "nat \<Rightarrow> 'a arrays \<Rightarrow> hslice \<Rightarrow> 'a list \<Rightarrow> bool" where
  "own_acc base m s xs =
     (case s of
        HNil \<Rightarrow> xs = []
      | HSlice a off n c \<Rightarrow>
          off = 0 \<and> base \<le> a \<and> a < length m \<and> length (m ! a) = c \<and> n = length xs
          \<and> n \<le> c \<and> take n (m ! a) = xs)"

subsection \<open>A concrete memory\<close>

text \<open>
  A memory that holds the intro track, the album that nests it and the Road Trip
  playlist, with their headers, and the growth policy that doubles the capacity.
\<close>

definition zero_SpotifyAlbum_mem :: SpotifyAlbum_mem where
  "zero_SpotifyAlbum_mem = \<lparr>
     sam_Name = '''', sam_Images = HNil, sam_URI = '''',
     sam_ExternalURL = \<lparr> eu_Spotify = '''' \<rparr>, sam_IntegrationID = '''',
     sam_ReleaseDate = '''', sam_Artists = HNil, sam_TracksCollection = HNil \<rparr>"

definition BareTrack_mem :: SpotifyTrack_mem where
  "BareTrack_mem = \<lparr>
     stm_Album = zero_SpotifyAlbum_mem, stm_Name = ''Intro'', stm_PreviewURL = '''',
     stm_TrackURI = '''', stm_IntegrationID = ''t3'', stm_DurationMS = 0,
     stm_ExternalURL = \<lparr> eu_Spotify = '''' \<rparr>, stm_Artists = HSlice 1 0 0 0 \<rparr>"

definition FullAlbum_mem :: SpotifyAlbum_mem where
  "FullAlbum_mem = \<lparr>
     sam_Name = ''LP'', sam_Images = HSlice 0 0 1 1, sam_URI = '''',
     sam_ExternalURL = \<lparr> eu_Spotify = '''' \<rparr>, sam_IntegrationID = ''al1'',
     sam_ReleaseDate = ''2021-05-05'', sam_Artists = HSlice 0 0 1 1,
     sam_TracksCollection = HSlice 0 0 1 1 \<rparr>"

definition RoadTrip_mem :: SpotifyPlaylist_mem where
  "RoadTrip_mem = \<lparr>
     spm_Name = ''Road Trip'', spm_Images = HSlice 0 0 0 0, spm_URI = '''',
     spm_ExternalURL = \<lparr> eu_Spotify = '''' \<rparr>, spm_IntegrationID = ''abc123'',
     spm_TracksCollection = HSlice 0 0 1 1 \<rparr>"

definition ExampleMemory :: memory where
  "ExampleMemory = \<lparr>
     AlbumImages = [[\<lparr> ai_Height = 300, ai_Width = 300, ai_URL = ''cover'' \<rparr>], []],
     PlaylistImages = [[]],
     Artists = [[\<lparr> ar_Name = ''Ann'', ar_IntegrationID = ''a1'' \<rparr>], [],
                [\<lparr> ar_Name = ''Artist X'', ar_IntegrationID = '''' \<rparr>]],
     Tracks = [[BareTrack_mem]],
     PlaylistTracks = [[\<lparr> ptm_Track = \<lparr>
        stm_Album = \<lparr>
          sam_Name = ''Al1'', sam_Images = HSlice 1 0 0 0, sam_URI = '''',
          sam_ExternalURL = \<lparr> eu_Spotify = '''' \<rparr>, sam_IntegrationID = '''',
          sam_ReleaseDate = ''2020-01-01'', sam_Artists = HNil, sam_TracksCollection = HNil \<rparr>,
        stm_Name = ''Song A'', stm_PreviewURL = '''', stm_TrackURI = '''',
        stm_IntegrationID = ''t1'', stm_DurationMS = 0,
        stm_ExternalURL = \<lparr> eu_Spotify = ''url1'' \<rparr>, stm_Artists = HSlice 2 0 1 1 \<rparr> \<rparr>]],
     MusicArtists = [],
     MusicTracks = [],
     Names = [],
     MusicTracks_str = [] \<rparr>"

definition double_cap :: "nat \<Rightarrow> nat \<Rightarrow> nat" where
  "double_cap old needed = 2 * old"

section \<open>Accumulating iterations as maps\<close>

text \<open>
  Each accumulating loop appends the image of every element, in order, to what the
  accumulator held; with no element the accumulator is returned as it was, \<^verbatim>\<open>nil\<close>
  included.
\<close>

lemma playlist_loop:
  "foldl (\<lambda>playlist track. playlist\<lparr> mp_Tracks := append (mp_Tracks playlist) (f track) \<rparr>) p xs
   = (if xs = [] then p else p\<lparr> mp_Tracks := Slice (elems (mp_Tracks p) @ map f xs) \<rparr>)"
  by (induction xs arbitrary: p) (simp_all add: append_def)

lemma playlist_str_loop:
  "foldl (\<lambda>playlist track. playlist\<lparr> mps_Tracks := append (mps_Tracks playlist) (f track) \<rparr>) p xs
   = (if xs = [] then p else p\<lparr> mps_Tracks := Slice (elems (mps_Tracks p) @ map f xs) \<rparr>)"
  by (induction xs arbitrary: p) (simp_all add: append_def)

lemma track_artists_loop:
  "foldl (\<lambda>musicTrack artist.
            musicTrack\<lparr> mt_Artists := append (mt_Artists musicTrack) (f artist) \<rparr>) m xs
   = (if xs = [] then m else m\<lparr> mt_Artists := Slice (elems (mt_Artists m) @ map f xs) \<rparr>)"
  by (induction xs arbitrary: m) (simp_all add: append_def)

lemma album_artists_loop:
  "foldl (\<lambda>ma artist. ma\<lparr> mal_Artists := append (mal_Artists ma) (f artist) \<rparr>) m xs
   = (if xs = [] then m else m\<lparr> mal_Artists := Slice (elems (mal_Artists m) @ map f xs) \<rparr>)"
  by (induction xs arbitrary: m) (simp_all add: append_def)

lemma album_tracks_loop:
  "foldl (\<lambda>ma track. ma\<lparr> mal_Tracks := append (mal_Tracks ma) (h track) \<rparr>) m xs
   = (if xs = [] then m else m\<lparr> mal_Tracks := Slice (elems (mal_Tracks m) @ map h xs) \<rparr>)"
  by (induction xs arbitrary: m) (simp_all add: append_def)

lemma names_loop:
  "foldl (\<lambda>artistNames artist. append artistNames (f artist)) s xs
   = (if xs = [] then s else Slice (elems s @ map f xs))"
  by (induction xs arbitrary: s) (simp_all add: append_def)

lemma join_loop:
  "foldl (\<lambda>b s. b @ sep @ s) e rest = e @ concat (map (\<lambda>s. sep @ s) rest)"
  by (induction rest arbitrary: e) simp_all

lemma strings_Join_eq:
  "strings_Join es sep =
     (case elems es of [] \<Rightarrow> '''' | e # rest \<Rightarrow> e @ concat (map (\<lambda>s. sep @ s) rest))"
  by (simp add: strings_Join_def join_loop split: list.splits)

section \<open>What each translation returns\<close>

lemma ConvertToMusicTrack_eq:
  "ConvertToMusicTrack st = \<lparr>
     mt_Name = st_Name st,
     mt_PreviewURL = st_PreviewURL st,
     mt_AlbumName = sa_Name (st_Album st),
     mt_AlbumArt = sa_Images (st_Album st),
     mt_AlbumReleaseDate = sa_ReleaseDate (st_Album st),
     mt_IntegrationID = st_IntegrationID st,
     mt_Source = ''spotify'',
     mt_ExternalURL = eu_Spotify (st_ExternalURL st),
     mt_Artists = Slice (map (\<lambda>a. \<lparr> ma_Name = ar_Name a, ma_IntegrationID = ar_IntegrationID a \<rparr>)
                           (elems (st_Artists st))) \<rparr>"
  by (simp add: ConvertToMusicTrack_def Let_def track_artists_loop)

lemma ConvertToMusicTrack_str_Artists:
  "mts_Artists (ConvertToMusicTrack_str st)
   = (case elems (st_Artists st) of
        [] \<Rightarrow> ''''
      | a # as \<Rightarrow> ar_Name a @ concat (map (\<lambda>x. '', '' @ ar_Name x) as))"
  by (simp add: ConvertToMusicTrack_str_def Let_def names_loop strings_Join_eq comp_def
           split: list.splits)

lemma ConvertToMusicPlaylist_Tracks:
  "mp_Tracks (ConvertToMusicPlaylist sp)
   = (if elems (pts_Items (sp_TracksCollection sp)) = [] then NilSlice
      else Slice (map (\<lambda>w. ConvertToMusicTrack (pt_Track w))
                    (elems (pts_Items (sp_TracksCollection sp)))))"
  by (simp add: ConvertToMusicPlaylist_def Let_def playlist_loop len_def)

lemma ConvertToMusicPlaylist_str_Tracks:
  "mps_Tracks (ConvertToMusicPlaylist_str sp)
   = (if elems (pts_Items (sp_TracksCollection sp)) = [] then NilSlice
      else Slice (map (\<lambda>w. ConvertToMusicTrack_str (pt_Track w))
                    (elems (pts_Items (sp_TracksCollection sp)))))"
  by (simp add: ConvertToMusicPlaylist_str_def Let_def playlist_str_loop len_def)

lemma ConvertToMusicAlbum_Tracks:
  "mal_Tracks (ConvertToMusicAlbum sa)
   = (if elems (tr_Items (sa_TracksCollection sa)) = [] then NilSlice
      else Slice (map (\<lambda>t. ConvertToMusicTrack (set_Album t sa))
                    (elems (tr_Items (sa_TracksCollection sa)))))"
  by (simp add: ConvertToMusicAlbum_def Let_def len_def album_artists_loop album_tracks_loop)

lemma ConvertToMusicAlbum_Artists:
  "mal_Artists (ConvertToMusicAlbum sa)
   = Slice (map (\<lambda>a. \<lparr> ma_Name = ar_Name a, ma_IntegrationID = ar_IntegrationID a \<rparr>)
              (elems (sa_Artists sa)))"
  by (simp add: ConvertToMusicAlbum_def Let_def len_def album_artists_loop album_tracks_loop)

lemma st_Album_set_Album: "st_Album (set_Album t sa) = sa"
  by (cases t) simp

lemma search_tracks_loop:
  "foldl (\<lambda>msr track. msr\<lparr> msr_Tracks := append (msr_Tracks msr) (f track) \<rparr>) m xs
   = (if xs = [] then m else m\<lparr> msr_Tracks := Slice (elems (msr_Tracks m) @ map f xs) \<rparr>)"
  by (induction xs arbitrary: m) (simp_all add: append_def)

lemma search_albums_loop:
  "msr_Tracks (foldl (\<lambda>msr album. msr\<lparr> msr_Albums := append (msr_Albums msr) (f album) \<rparr>) m xs)
   = msr_Tracks m"
  by (induction xs arbitrary: m) simp_all

lemma search_playlists_loop:
  "msr_Tracks (foldl (\<lambda>msr playlist.
                  msr\<lparr> msr_Playlists := append (msr_Playlists msr) (f playlist) \<rparr>) m xs)
   = msr_Tracks m"
  by (induction xs arbitrary: m) simp_all

lemma NewMusicSearchResultFromSpotify_Tracks:
  "elems (msr_Tracks (NewMusicSearchResultFromSpotify r))
   = map (\<lambda>track. \<lparr>
            mt_Name = st_Name track,
            mt_PreviewURL = st_PreviewURL track,
            mt_AlbumName = sa_Name (st_Album track),
            mt_AlbumArt = sa_Images (st_Album track),
            mt_AlbumReleaseDate = sa_ReleaseDate (st_Album track),
            mt_IntegrationID = st_IntegrationID track,
            mt_Source = ''spotify'',
            mt_ExternalURL = eu_Spotify (st_ExternalURL track),
            mt_Artists =
              (if elems (sa_Artists (st_Album track)) = [] then NilSlice
               else Slice (map (\<lambda>a. \<lparr> ma_Name = ar_Name a,
                                       ma_IntegrationID = ar_IntegrationID a \<rparr>)
                             (elems (sa_Artists (st_Album track))))) \<rparr>)
       (elems (tr_Items (sr_ResultCollection r)))"
  by (simp add: NewMusicSearchResultFromSpotify_def Let_def search_playlists_loop
        search_albums_loop search_tracks_loop track_artists_loop)

subsection \<open>The decoder and the token a body gives\<close>

lemma exact_match_folds:
  "(key = ''access_token'' \<or> equalFoldRight ''access_token'' key)
   = equalFoldRight ''access_token'' key"
proof -
  have "equalFoldRight ''access_token'' ''access_token''"
    by (simp add: and_caseMask_def)
  then show ?thesis by auto
qed

text \<open>On a key of ASCII bytes the folding is equality up to the case of letters.\<close>

lemma equalFoldRight_ascii:
  "\<forall>c \<in> set t. (of_char c :: nat) < 128 \<Longrightarrow>
     equalFoldRight s t
     = list_all2 (\<lambda>sb tb. sb = tb
           \<or> (of_char CHR ''A'' \<le> and_caseMask sb \<and> and_caseMask sb \<le> of_char CHR ''Z''
              \<and> and_caseMask sb = and_caseMask tb)) s t"
proof (induction s arbitrary: t)
  case Nil
  then show ?case by auto
next
  case (Cons sb s)
  show ?case
  proof (cases t)
    case Nil
    then show ?thesis by simp
  next
    case (Cons tb t')
    with Cons.prems have "(of_char tb :: nat) < 128" "\<forall>c \<in> set t'. (of_char c :: nat) < 128"
      by simp_all
    with Cons.IH[of t'] Cons show ?thesis
      by (auto simp: Let_def)
  qed
qed

lemma Unmarshal_loop:
  "AccessToken (foldl (\<lambda>v (key, val).
                   if key = ''access_token'' \<or> equalFoldRight ''access_token'' key
                   then (case val of JString s \<Rightarrow> v\<lparr> AccessToken := s \<rparr> | _ \<Rightarrow> v)
                   else v) v members)
   = (if filter string_for_access_token members = [] then AccessToken v
      else string_of (snd (last (filter string_for_access_token members))))"
proof (induction members rule: rev_induct)
  case Nil
  then show ?case by simp
next
  case (snoc m members)
  obtain key val where m: "m = (key, val)"
    by (cases m)
  show ?case
    using snoc unfolding m
    by (cases val) (simp_all add: exact_match_folds)
qed

lemma Unmarshal_body_access_token:
  "AccessToken (Unmarshal data \<lparr> AccessToken = '''' \<rparr>) = body_access_token data"
  by (simp add: Unmarshal_def body_access_token_def Unmarshal_loop
        split: option.splits json.splits)

lemma refreshSpotifyToken_on_200:
  "token_NewRequest w = None \<Longrightarrow> token_Do w = Inr resp \<Longrightarrow> tk_StatusCode resp = 200 \<Longrightarrow>
     refreshSpotifyToken w o1
     = (if body_access_token (tk_Body resp) = ''''
        then (('''', Some (errors_New ''Problems getting spotify access token from JSON'')),
              o1, [TokenRequest (ClientID o1) (ClientSecret o1)])
        else ((body_access_token (tk_Body resp), None),
              o1\<lparr> Token := body_access_token (tk_Body resp) \<rparr>,
              [TokenRequest (ClientID o1) (ClientSecret o1)]))"
  by (simp add: refreshSpotifyToken_def Let_def Unmarshal_body_access_token)

lemma refreshSpotifyToken_fails_when:
  "token_NewRequest w \<noteq> None \<or> (\<exists>err. token_Do w = Inl err)
     \<or> (\<exists>resp. token_Do w = Inr resp \<and> tk_StatusCode resp \<noteq> 200)
   \<Longrightarrow> \<exists>err. fst (refreshSpotifyToken w o1) = ('''', Some err)"
  by (auto simp: refreshSpotifyToken_def Let_def split: option.splits sum.splits)

lemma refreshSpotifyToken_sends_no_get:
  "GetRequest u t \<notin> set (snd (snd (refreshSpotifyToken w o1)))"
  by (auto simp: refreshSpotifyToken_def Let_def split: option.splits sum.splits)

lemma NewSpotify_error:
  "snd (fst (getToken w \<lparr> Token = '''', ClientID = c, ClientSecret = s \<rparr>)) = Some err
   \<Longrightarrow> NewSpotify w c s
       = ((None, Some err), snd (snd (getToken w \<lparr> Token = '''', ClientID = c, ClientSecret = s \<rparr>)))"
  by (cases "getToken w \<lparr> Token = '''', ClientID = c, ClientSecret = s \<rparr>")
     (auto simp: NewSpotify_def)

section \<open>The translators on memory against the translators on values\<close>

text \<open>
  The rule for \<open>range_loop\<close> is the invariant rule; \<open>append\<close> on a slice that the
  function owns keeps every array below \<open>base\<close> as it was. With them each translator on
  memory is shown to return, to leave the memory it found unchanged, and to return the
  value of its counterpart on values.
\<close>

lemma range_loop_inv:
  assumes "I 0 s"
    and "\<And>i s. i < n \<Longrightarrow> I i s \<Longrightarrow> \<exists>s'. body i s = Some s' \<and> I (Suc i) s'"
  shows "\<exists>s'. range_loop n body s = Some s' \<and> I n s'"
  using assms(2)
proof (induction n)
  case 0
  then show ?case using assms(1) by (simp add: range_loop_def)
next
  case (Suc n)
  then obtain s1 where s1: "range_loop n body s = Some s1" "I n s1"
    by (metis less_Suc_eq)
  from Suc.prems[of n s1] s1 obtain s2 where "body n s1 = Some s2" "I (Suc n) s2"
    by auto
  then show ?case using s1 by (simp add: range_loop_def)
qed

lemma hread_own_acc: "own_acc base m s xs \<Longrightarrow> hread m s = Some xs"
  by (auto simp: own_acc_def hread_def split: hslice.splits)

lemma own_acc_hempty: "own_acc (length m) (fst (hempty m)) (snd (hempty m)) []"
  by (simp add: own_acc_def hempty_def)

lemma happend_own_acc:
  assumes "own_acc base m s xs" "base \<le> length m"
  shows "\<exists>m' s'. happend z grow m s x = Some (m', s') \<and> own_acc base m' s' (xs @ [x])
           \<and> s' \<noteq> HNil \<and> take base m' = take base m \<and> length m \<le> length m'"
proof (cases s)
  case HNil
  with assms show ?thesis
    by (simp add: happend_def growslice_def own_acc_def hread_def Let_def nth_append)
next
  case (HSlice a off n c)
  with assms have o: "off = 0" "base \<le> a" "a < length m" "length (m ! a) = c"
      "n = length xs" "n \<le> c" "take n (m ! a) = xs"
    by (auto simp: own_acc_def)
  show ?thesis
  proof (cases "n < c")
    case True
    have "take (Suc n) ((m ! a)[n := x]) = xs @ [x]"
      using o True by (simp add: take_Suc_conv_app_nth)
    then show ?thesis
      using HSlice o True
      by (simp add: happend_def own_acc_def)
  next
    case False
    then have "hread m s = Some xs"
      using HSlice o by (simp add: hread_def)
    then show ?thesis
      using HSlice o False assms(2)
      by (simp add: happend_def growslice_def own_acc_def Let_def nth_append)
  qed
qed


lemma extends_refl: "extends m m"
  by (simp add: extends_def)

lemma extends_append: "extends m (m @ zs)"
  by (simp add: extends_def)

lemma extends_obtain: "extends m m' \<Longrightarrow> \<exists>zs. m' = m @ zs"
proof -
  assume "extends m m'"
  then have "m' = m @ drop (length m) m'"
    unfolding extends_def by (metis append_take_drop_id)
  then show ?thesis ..
qed

lemma extends_length: "extends m m' \<Longrightarrow> length m \<le> length m'"
  using extends_obtain by fastforce

lemma extends_trans: "extends m m' \<Longrightarrow> extends m' m'' \<Longrightarrow> extends m m''"
proof -
  assume "extends m m'" "extends m' m''"
  then obtain zs zs' where "m' = m @ zs" "m'' = m' @ zs'"
    using extends_obtain by blast
  then have "m'' = m @ (zs @ zs')" by simp
  then show ?thesis using extends_append by blast
qed

lemma extends_nth: "extends m m' \<Longrightarrow> a < length m \<Longrightarrow> m' ! a = m ! a"
proof -
  assume "extends m m'" "a < length m"
  then obtain zs where "m' = m @ zs" "a < length m"
    using extends_obtain by blast
  then show ?thesis by (simp add: nth_append)
qed

lemma hread_extends: "extends m m' \<Longrightarrow> hread m s = Some xs \<Longrightarrow> hread m' s = Some xs"
proof (cases s)
  case HNil
  assume "hread m s = Some xs"
  with HNil show ?thesis by (simp add: hread_def)
next
  case (HSlice a off n c)
  assume e: "extends m m'" and r: "hread m s = Some xs"
  from r HSlice have v: "a < length m" "off + n \<le> length (m ! a)"
      "xs = take n (drop off (m ! a))"
    by (auto simp: hread_def split: if_splits)
  have "a < length m'" "m' ! a = m ! a"
    using extends_length[OF e] extends_nth[OF e v(1)] v(1) by simp_all
  then show ?thesis
    using HSlice v by (simp add: hread_def)
qed

lemma repr_slice_extends: "extends m m' \<Longrightarrow> repr_slice R m s v \<Longrightarrow> repr_slice R m' s v"
  by (auto simp: repr_slice_def dest: hread_extends split: option.splits)

lemma repr_slice_eq:
  "repr_slice (=) m s v \<Longrightarrow> hread m s = Some (elems v) \<and> hlen s = length (elems v)"
  by (cases v; cases s)
     (auto simp: repr_slice_def hread_def list_all2_eq[symmetric] split: option.splits if_splits)

lemma repr_SpotifyTrack_fields:
  "repr_SpotifyTrack st h m \<Longrightarrow>
     repr_SpotifyAlbum (st_Album st) h (stm_Album m) \<and> stm_Name m = st_Name st
     \<and> stm_PreviewURL m = st_PreviewURL st \<and> stm_IntegrationID m = st_IntegrationID st
     \<and> stm_ExternalURL m = st_ExternalURL st
     \<and> repr_slice (=) (Artists h) (stm_Artists m) (st_Artists st)"
  by (cases st) simp

lemma repr_SpotifyAlbum_fields:
  "repr_SpotifyAlbum sa h m \<Longrightarrow>
     sam_Name m = sa_Name sa \<and> repr_slice (=) (AlbumImages h) (sam_Images m) (sa_Images sa)
     \<and> sam_IntegrationID m = sa_IntegrationID sa \<and> sam_ReleaseDate m = sa_ReleaseDate sa
     \<and> repr_slice (=) (Artists h) (sam_Artists m) (sa_Artists sa)
     \<and> repr_SpotifyTracksResult (sa_TracksCollection sa) h (sam_TracksCollection m)"
  by (cases sa) simp

lemma hindex_repr_slice_eq:
  "repr_slice (=) m s v \<Longrightarrow> i < length (elems v) \<Longrightarrow> hindex m s i = Some (elems v ! i)"
  using repr_slice_eq[of m s v] by (simp add: hindex_def)

lemma repr_slice_own_acc:
  "own_acc base m s xs \<Longrightarrow> s \<noteq> HNil \<Longrightarrow> repr_slice (=) m s (Slice xs)"
  using hread_own_acc[of base m s xs] by (simp add: repr_slice_def list_all2_eq[symmetric])

lemma ConvertToMusicTrack_mem_spec:
  assumes r: "repr_SpotifyTrack st h stm"
  shows "\<exists>out m. ConvertToMusicTrack_mem grow stm h = Some (out, h\<lparr> MusicArtists := m \<rparr>)
           \<and> extends (MusicArtists h) m
           \<and> repr_MusicTrack (h\<lparr> MusicArtists := m \<rparr>) out (ConvertToMusicTrack st)"
proof -
  define as where "as = elems (st_Artists st)"
  define conv where
    "conv = (\<lambda>a :: SpotifyArtist.
               \<lparr> ma_Name = ar_Name a, ma_IntegrationID = ar_IntegrationID a \<rparr>)"
  define b where "b = length (MusicArtists h)"
  define mt0 where "mt0 = \<lparr>
            mtm_Name = stm_Name stm,
            mtm_PreviewURL = stm_PreviewURL stm,
            mtm_AlbumName = sam_Name (stm_Album stm),
            mtm_AlbumArt = sam_Images (stm_Album stm),
            mtm_AlbumReleaseDate = sam_ReleaseDate (stm_Album stm),
            mtm_IntegrationID = stm_IntegrationID stm,
            mtm_Source = ''spotify'',
            mtm_ExternalURL = eu_Spotify (stm_ExternalURL stm),
            mtm_Artists = HNil \<rparr>"
  define body where "body = (\<lambda>(i :: nat) (musicTrack :: MusicTrack_mem, h :: memory). do {
               artist \<leftarrow> hindex (Artists h) (stm_Artists stm) i;
               let musicArtist = \<lparr> ma_Name = ar_Name artist,
                                   ma_IntegrationID = ar_IntegrationID artist \<rparr>;
               (m, s) \<leftarrow> happend zero_MusicArtist grow (MusicArtists h)
                           (mtm_Artists musicTrack) musicArtist;
               Some (musicTrack\<lparr> mtm_Artists := s \<rparr>, h\<lparr> MusicArtists := m \<rparr>)
             })"
  define I where "I = (\<lambda>(i :: nat) (p :: MusicTrack_mem \<times> memory).
      fst p = mt0\<lparr> mtm_Artists := mtm_Artists (fst p) \<rparr>
      \<and> snd p = h\<lparr> MusicArtists := MusicArtists (snd p) \<rparr>
      \<and> own_acc b (MusicArtists (snd p)) (mtm_Artists (fst p)) (map conv (take i as))
      \<and> mtm_Artists (fst p) \<noteq> HNil
      \<and> take b (MusicArtists (snd p)) = MusicArtists h \<and> b \<le> length (MusicArtists (snd p)))"
  note f = repr_SpotifyTrack_fields[OF r]
  note g = repr_SpotifyAlbum_fields[OF f[THEN conjunct1]]
  have ra: "repr_slice (=) (Artists h) (stm_Artists stm) (st_Artists st)"
    using f by simp
  have n: "hlen (stm_Artists stm) = length as"
    using repr_slice_eq[OF ra] by (simp add: as_def)
  have unf: "ConvertToMusicTrack_mem grow stm h
      = range_loop (length as) body
          (mt0\<lparr> mtm_Artists := HSlice b 0 0 0 \<rparr>, h\<lparr> MusicArtists := MusicArtists h @ [[]] \<rparr>)"
    by (simp add: ConvertToMusicTrack_mem_def hempty_def n body_def mt0_def b_def)
  have init: "I 0 (mt0\<lparr> mtm_Artists := HSlice b 0 0 0 \<rparr>,
                  h\<lparr> MusicArtists := MusicArtists h @ [[]] \<rparr>)"
    by (simp add: I_def own_acc_def b_def)
  have step: "\<exists>p'. body i p = Some p' \<and> I (Suc i) p'" if "i < length as" "I i p" for i p
  proof -
    define s where "s = mtm_Artists (fst p)"
    define m where "m = MusicArtists (snd p)"
    from that(2) have
      p: "p = (mt0\<lparr> mtm_Artists := s \<rparr>, h\<lparr> MusicArtists := m \<rparr>)"
      and o: "own_acc b m s (map conv (take i as))" "take b m = MusicArtists h" "b \<le> length m"
      unfolding I_def s_def m_def by (simp_all add: prod_eq_iff)
    have ix: "hindex (Artists h) (stm_Artists stm) i = Some (as ! i)"
      using hindex_repr_slice_eq[OF ra] that(1) by (simp add: as_def)
    from happend_own_acc[OF o(1) o(3), of zero_MusicArtist grow "conv (as ! i)"]
    obtain m' s' where
      a: "happend zero_MusicArtist grow m s (conv (as ! i)) = Some (m', s')"
         "own_acc b m' s' (map conv (take i as) @ [conv (as ! i)])" "s' \<noteq> HNil"
         "take b m' = take b m" "length m \<le> length m'"
      by blast
    have t: "map conv (take i as) @ [conv (as ! i)] = map conv (take (Suc i) as)"
      using that(1) by (simp add: take_Suc_conv_app_nth)
    have "body i p = Some (mt0\<lparr> mtm_Artists := s' \<rparr>, h\<lparr> MusicArtists := m' \<rparr>)"
      using ix a(1) by (simp add: body_def p conv_def)
    moreover have "I (Suc i) (mt0\<lparr> mtm_Artists := s' \<rparr>, h\<lparr> MusicArtists := m' \<rparr>)"
      unfolding I_def using a o t by simp
    ultimately show ?thesis by blast
  qed
  have "\<exists>p'. range_loop (length as) body
          (mt0\<lparr> mtm_Artists := HSlice b 0 0 0 \<rparr>, h\<lparr> MusicArtists := MusicArtists h @ [[]] \<rparr>)
        = Some p' \<and> I (length as) p'"
  proof (rule range_loop_inv[where I = I])
    show "I 0 (mt0\<lparr> mtm_Artists := HSlice b 0 0 0 \<rparr>,
               h\<lparr> MusicArtists := MusicArtists h @ [[]] \<rparr>)"
      by (rule init)
  next
    fix i p
    assume "i < length as" "I i p"
    then show "\<exists>p'. body i p = Some p' \<and> I (Suc i) p'"
      by (rule step)
  qed
  then obtain p' where l: "range_loop (length as) body
          (mt0\<lparr> mtm_Artists := HSlice b 0 0 0 \<rparr>, h\<lparr> MusicArtists := MusicArtists h @ [[]] \<rparr>)
        = Some p'" "I (length as) p'"
    by blast
  define s where "s = mtm_Artists (fst p')"
  define m where "m = MusicArtists (snd p')"
  from l(2) have
    p': "p' = (mt0\<lparr> mtm_Artists := s \<rparr>, h\<lparr> MusicArtists := m \<rparr>)"
    and o: "own_acc b m s (map conv as)" "s \<noteq> HNil" "take b m = MusicArtists h"
    unfolding I_def s_def m_def by (simp_all add: prod_eq_iff)
  have e: "extends (MusicArtists h) m"
    using o(3) by (simp add: extends_def b_def)
  have art: "repr_slice (=) m s (Slice (map conv as))"
    using repr_slice_own_acc[OF o(1) o(2)] .
  have "repr_MusicTrack (h\<lparr> MusicArtists := m \<rparr>) (mt0\<lparr> mtm_Artists := s \<rparr>)
          (ConvertToMusicTrack st)"
    using f g art
    by (simp add: repr_MusicTrack_def ConvertToMusicTrack_eq mt0_def conv_def as_def)
  then show ?thesis
    using unf l(1) p' e by auto
qed

lemma repr_Spotify_inputs_only:
  assumes "AlbumImages h' = AlbumImages h" "Artists h' = Artists h" "Tracks h' = Tracks h"
  shows "repr_SpotifyTrack st h' = repr_SpotifyTrack st h"
    and "repr_SpotifyAlbum sa h' = repr_SpotifyAlbum sa h"
    and "repr_SpotifyTracksResult tr h' = repr_SpotifyTracksResult tr h"
proof (induction st and sa and tr)
  case (SpotifyTrack al n p u i d e ars)
  then show ?case using assms by (simp add: fun_eq_iff)
next
  case (SpotifyAlbum n imgs u e i r ars tc)
  then show ?case using assms by (simp add: fun_eq_iff)
next
  case (SpotifyTracksResult items)
  then have "map_slice (\<lambda>t. repr_SpotifyTrack t h') items
             = map_slice (\<lambda>t. repr_SpotifyTrack t h) items"
    by (intro slice.map_cong) simp_all
  then show ?case using assms by (simp add: fun_eq_iff)
qed

lemma repr_SpotifyTrack_frame:
  "frame h h' \<Longrightarrow> repr_SpotifyTrack st h stm \<Longrightarrow> repr_SpotifyTrack st h' stm"
  using repr_Spotify_inputs_only(1)[of h' h st] by (simp add: frame_def)

lemma repr_SpotifyAlbum_frame:
  "frame h h' \<Longrightarrow> repr_SpotifyAlbum sa h sam \<Longrightarrow> repr_SpotifyAlbum sa h' sam"
  using repr_Spotify_inputs_only(2)[of h' h sa] by (simp add: frame_def)

lemma repr_MusicTrack_frame:
  "frame h h' \<Longrightarrow> repr_MusicTrack h m mt \<Longrightarrow> repr_MusicTrack h' m mt"
  by (auto simp: frame_def repr_MusicTrack_def intro: repr_slice_extends)

lemma frame_refl: "frame h h"
  by (simp add: frame_def extends_refl)

lemma frame_trans: "frame h h' \<Longrightarrow> frame h' h'' \<Longrightarrow> frame h h''"
  by (auto simp: frame_def intro: extends_trans)

lemma repr_slice_obtain:
  "repr_slice R m s v \<Longrightarrow>
     \<exists>hs. hread m s = Some hs \<and> list_all2 R hs (elems v) \<and> hlen s = length hs
          \<and> (s = HNil \<longleftrightarrow> v = NilSlice)"
  by (cases v; cases s)
     (auto simp: repr_slice_def hread_def split: option.splits if_splits)

lemma repr_slice_own_acc_rel:
  "own_acc base m s hs \<Longrightarrow> s \<noteq> HNil \<Longrightarrow> list_all2 R hs xs \<Longrightarrow> repr_slice R m s (Slice xs)"
  using hread_own_acc[of base m s hs] by (simp add: repr_slice_def)

lemma repr_slice_HNil: "repr_slice R m HNil NilSlice"
  by (simp add: repr_slice_def hread_def)

lemma repr_MusicTrack_stable:
  "AlbumImages h' = AlbumImages h \<Longrightarrow> extends (MusicArtists h) (MusicArtists h')
   \<Longrightarrow> repr_MusicTrack h m mt \<Longrightarrow> repr_MusicTrack h' m mt"
  by (auto simp: repr_MusicTrack_def intro: repr_slice_extends)

lemma ConvertToMusicPlaylist_eq:
  "ConvertToMusicPlaylist sp = \<lparr>
     mp_Name = sp_Name sp,
     mp_PlaylistArt = sp_Images sp,
     mp_Tracks = (if elems (pts_Items (sp_TracksCollection sp)) = [] then NilSlice
                  else Slice (map (\<lambda>w. ConvertToMusicTrack (pt_Track w))
                                (elems (pts_Items (sp_TracksCollection sp))))),
     mp_IntegrationID = sp_IntegrationID sp \<rparr>"
  by (simp add: ConvertToMusicPlaylist_def Let_def playlist_loop len_def)

lemma ConvertToMusicPlaylist_mem_spec:
  assumes r: "repr_SpotifyPlaylist sp h spm"
  shows "\<exists>out h'. ConvertToMusicPlaylist_mem grow spm h = Some (out, h') \<and> frame h h'
           \<and> repr_MusicPlaylist h' out (ConvertToMusicPlaylist sp)"
proof -
  define pts where "pts = elems (pts_Items (sp_TracksCollection sp))"
  define f where "f = (\<lambda>w :: SpotifyPlaylistTrack. ConvertToMusicTrack (pt_Track w))"
  define b where "b = length (MusicTracks h)"
  define pl0 where "pl0 = \<lparr>
            mpm_Name = spm_Name spm,
            mpm_PlaylistArt = spm_Images spm,
            mpm_Tracks = HNil,
            mpm_IntegrationID = spm_IntegrationID spm \<rparr>"
  define body where "body = (\<lambda>(i :: nat) (playlist :: MusicPlaylist_mem, h :: memory). do {
                    track \<leftarrow> hindex (PlaylistTracks h) (spm_TracksCollection spm) i;
                    (mt, h) \<leftarrow> ConvertToMusicTrack_mem grow (ptm_Track track) h;
                    (m, s) \<leftarrow> happend zero_MusicTrack_mem grow (MusicTracks h)
                                (mpm_Tracks playlist) mt;
                    Some (playlist\<lparr> mpm_Tracks := s \<rparr>, h\<lparr> MusicTracks := m \<rparr>)
                  })"
  define I where "I = (\<lambda>(i :: nat) (p :: MusicPlaylist_mem \<times> memory).
      fst p = pl0\<lparr> mpm_Tracks := mpm_Tracks (fst p) \<rparr>
      \<and> frame h (snd p)
      \<and> (0 < i \<longrightarrow> mpm_Tracks (fst p) \<noteq> HNil)
      \<and> (\<exists>hs. own_acc b (MusicTracks (snd p)) (mpm_Tracks (fst p)) hs
               \<and> list_all2 (repr_MusicTrack (snd p)) hs (map f (take i pts))))"
  from r have flds: "spm_Name spm = sp_Name sp" "spm_IntegrationID spm = sp_IntegrationID sp"
      "repr_slice (=) (PlaylistImages h) (spm_Images spm) (sp_Images sp)"
    and rt: "repr_slice (\<lambda>tm t. repr_SpotifyTrack (pt_Track t) h (ptm_Track tm))
            (PlaylistTracks h) (spm_TracksCollection spm) (pts_Items (sp_TracksCollection sp))"
    by (simp_all add: repr_SpotifyPlaylist_def)
  from repr_slice_obtain[OF rt] obtain ptms where
    rd: "hread (PlaylistTracks h) (spm_TracksCollection spm) = Some ptms"
    and all: "list_all2 (\<lambda>tm t. repr_SpotifyTrack (pt_Track t) h (ptm_Track tm)) ptms pts"
    and n: "hlen (spm_TracksCollection spm) = length ptms"
    unfolding pts_def by blast
  have len: "length ptms = length pts"
    using all by (rule list_all2_lengthD)
  show ?thesis
  proof (cases "pts = []")
    case True
    then have "ConvertToMusicPlaylist_mem grow spm h = Some (pl0, h)"
      using n len by (simp add: ConvertToMusicPlaylist_mem_def pl0_def)
    moreover have "repr_MusicPlaylist h pl0 (ConvertToMusicPlaylist sp)"
      using True flds
      by (simp add: repr_MusicPlaylist_def ConvertToMusicPlaylist_eq pl0_def pts_def
            repr_slice_HNil)
    ultimately show ?thesis
      using frame_refl by blast
  next
    case False
    then have unf: "ConvertToMusicPlaylist_mem grow spm h = range_loop (length pts) body (pl0, h)"
      using n len by (simp add: ConvertToMusicPlaylist_mem_def pl0_def body_def)
    have init: "I 0 (pl0, h)"
      by (simp add: I_def pl0_def frame_refl own_acc_def)
    have step: "\<exists>p'. body i p = Some p' \<and> I (Suc i) p'" if i: "i < length pts" and inv: "I i p"
      for i p
    proof -
      define pl where "pl = fst p"
      define h1 where "h1 = snd p"
      from inv obtain hs where
        p: "p = (pl, h1)" and pl: "pl = pl0\<lparr> mpm_Tracks := mpm_Tracks pl \<rparr>"
        and fr: "frame h h1"
        and o: "own_acc b (MusicTracks h1) (mpm_Tracks pl) hs"
        and hs: "list_all2 (repr_MusicTrack h1) hs (map f (take i pts))"
        unfolding I_def pl_def h1_def by auto
      have ix: "hindex (PlaylistTracks h1) (spm_TracksCollection spm) i = Some (ptms ! i)"
        using fr rd i len by (simp add: hindex_def frame_def)
      have "repr_SpotifyTrack (pt_Track (pts ! i)) h (ptm_Track (ptms ! i))"
        using list_all2_nthD2[OF all i] .
      then have "repr_SpotifyTrack (pt_Track (pts ! i)) h1 (ptm_Track (ptms ! i))"
        using fr by (rule repr_SpotifyTrack_frame[rotated])
      from ConvertToMusicTrack_mem_spec[OF this, of grow] obtain mt mA where
        c: "ConvertToMusicTrack_mem grow (ptm_Track (ptms ! i)) h1
              = Some (mt, h1\<lparr> MusicArtists := mA \<rparr>)"
        and e: "extends (MusicArtists h1) mA"
        and rm: "repr_MusicTrack (h1\<lparr> MusicArtists := mA \<rparr>) mt (f (pts ! i))"
        unfolding f_def by blast
      have bl: "b \<le> length (MusicTracks h1)"
        using fr extends_length by (auto simp: frame_def b_def)
      from happend_own_acc[OF o bl, of zero_MusicTrack_mem grow mt] obtain m' s' where
        a: "happend zero_MusicTrack_mem grow (MusicTracks h1) (mpm_Tracks pl) mt = Some (m', s')"
           "own_acc b m' s' (hs @ [mt])" "s' \<noteq> HNil"
           "take b m' = take b (MusicTracks h1)"
        by blast
      define h3 where "h3 = h1\<lparr> MusicArtists := mA, MusicTracks := m' \<rparr>"
      have b1: "body i p = Some (pl\<lparr> mpm_Tracks := s' \<rparr>, h3)"
        using ix c a(1) by (simp add: body_def p h3_def)
      have "take b (MusicTracks h1) = MusicTracks h"
        using fr by (simp add: frame_def extends_def b_def)
      then have f3: "frame h h3"
        using fr e a(4) extends_trans[of "MusicArtists h" "MusicArtists h1" mA]
        by (simp add: frame_def h3_def extends_def b_def)
      have "list_all2 (repr_MusicTrack h3) hs (map f (take i pts))"
        using hs e
        by (auto simp: h3_def elim!: list_all2_mono intro: repr_MusicTrack_stable)
      moreover have "repr_MusicTrack h3 mt (f (pts ! i))"
        by (rule repr_MusicTrack_stable[OF _ _ rm]) (simp_all add: h3_def extends_refl)
      ultimately have la:
        "list_all2 (repr_MusicTrack h3) (hs @ [mt]) (map f (take (Suc i) pts))"
        using i by (simp add: take_Suc_conv_app_nth list_all2_appendI)
      have pq: "pl\<lparr> mpm_Tracks := s' \<rparr> = pl0\<lparr> mpm_Tracks := s' \<rparr>"
        by (subst pl) simp
      have "I (Suc i) (pl\<lparr> mpm_Tracks := s' \<rparr>, h3)"
        unfolding I_def using la pq f3 a(2,3)
        by (auto simp: h3_def intro!: exI[of _ "hs @ [mt]"])
      with b1 show ?thesis by blast
    qed
    have "\<exists>p'. range_loop (length pts) body (pl0, h) = Some p' \<and> I (length pts) p'"
    proof (rule range_loop_inv[where I = I])
      show "I 0 (pl0, h)" by (rule init)
    next
      fix i p
      assume "i < length pts" "I i p"
      then show "\<exists>p'. body i p = Some p' \<and> I (Suc i) p'" by (rule step)
    qed
    then obtain p' where l: "range_loop (length pts) body (pl0, h) = Some p'"
        "I (length pts) p'"
      by blast
    define out where "out = fst p'"
    define h' where "h' = snd p'"
    from l(2) False obtain hs where
      p': "p' = (out, h')" and out: "out = pl0\<lparr> mpm_Tracks := mpm_Tracks out \<rparr>"
      and fr: "frame h h'" and nn: "mpm_Tracks out \<noteq> HNil"
      and o: "own_acc b (MusicTracks h') (mpm_Tracks out) hs"
      and hs: "list_all2 (repr_MusicTrack h') hs (map f pts)"
      unfolding I_def out_def h'_def by auto
    have t: "repr_slice (repr_MusicTrack h') (MusicTracks h') (mpm_Tracks out) (Slice (map f pts))"
      using repr_slice_own_acc_rel[OF o nn hs] .
    have "mpm_Name out = sp_Name sp" "mpm_IntegrationID out = sp_IntegrationID sp"
        "mpm_PlaylistArt out = spm_Images spm"
      using flds by (subst out, simp add: pl0_def)+
    then have "repr_MusicPlaylist h' out (ConvertToMusicPlaylist sp)"
      using False t flds(3) fr
      by (simp add: repr_MusicPlaylist_def ConvertToMusicPlaylist_eq pts_def f_def frame_def)
    then show ?thesis
      using unf l(1) p' fr by auto
  qed
qed

lemma elems_map_slice: "elems (map_slice g v) = map g (elems v)"
  by (cases v) simp_all

lemma repr_SpotifyTracksResult_obtain:
  assumes "repr_SpotifyTracksResult tr h s"
  shows "\<exists>stms. hread (Tracks h) s = Some stms
           \<and> list_all2 (\<lambda>stm t. repr_SpotifyTrack t h stm) stms (elems (tr_Items tr))
           \<and> hlen s = length stms"
proof (cases tr)
  case (SpotifyTracksResult items)
  with assms have
    "repr_slice (\<lambda>st p. p st) (Tracks h) s (map_slice (\<lambda>t. repr_SpotifyTrack t h) items)"
    by simp
  from repr_slice_obtain[OF this] show ?thesis
    using SpotifyTracksResult by (auto simp: elems_map_slice list_all2_map2)
qed

lemma repr_SpotifyTrack_set_Album:
  "repr_SpotifyTrack t h stm \<Longrightarrow> repr_SpotifyAlbum sa h sam
   \<Longrightarrow> repr_SpotifyTrack (set_Album t sa) h (stm\<lparr> stm_Album := sam \<rparr>)"
  by (cases t) simp

lemma ConvertToMusicAlbum_eq:
  "ConvertToMusicAlbum sa = \<lparr>
     mal_Name = sa_Name sa,
     mal_AlbumArt = sa_Images sa,
     mal_ReleaseDate = sa_ReleaseDate sa,
     mal_Artists = Slice (map (\<lambda>a. \<lparr> ma_Name = ar_Name a,
                                      ma_IntegrationID = ar_IntegrationID a \<rparr>)
                            (elems (sa_Artists sa))),
     mal_Tracks = (if elems (tr_Items (sa_TracksCollection sa)) = [] then NilSlice
                   else Slice (map (\<lambda>t. ConvertToMusicTrack (set_Album t sa))
                                 (elems (tr_Items (sa_TracksCollection sa))))),
     mal_IntegrationID = sa_IntegrationID sa \<rparr>"
  by (simp add: ConvertToMusicAlbum_def Let_def len_def album_artists_loop album_tracks_loop)

lemma album_artists_loop_mem:
  fixes sam :: SpotifyAlbum_mem and ma0 :: MusicAlbum_mem and h :: memory
    and grow :: "nat \<Rightarrow> nat \<Rightarrow> nat"
  assumes ra: "repr_slice (=) (Artists h) (sam_Artists sam) ars"
  defines "body \<equiv> (\<lambda>(i :: nat) (ma :: MusicAlbum_mem, h :: memory). do {
                  artist \<leftarrow> hindex (Artists h) (sam_Artists sam) i;
                  let musicArtist = \<lparr> ma_Name = ar_Name artist,
                                      ma_IntegrationID = ar_IntegrationID artist \<rparr>;
                  (m, s) \<leftarrow> happend zero_MusicArtist grow (MusicArtists h)
                              (malm_Artists ma) musicArtist;
                  Some (ma\<lparr> malm_Artists := s \<rparr>, h\<lparr> MusicArtists := m \<rparr>)
                })"
  shows "\<exists>s m. range_loop (hlen (sam_Artists sam)) body
             (ma0\<lparr> malm_Artists := HSlice (length (MusicArtists h)) 0 0 0 \<rparr>,
              h\<lparr> MusicArtists := MusicArtists h @ [[]] \<rparr>)
           = Some (ma0\<lparr> malm_Artists := s \<rparr>, h\<lparr> MusicArtists := m \<rparr>)
         \<and> extends (MusicArtists h) m
         \<and> repr_slice (=) m s
              (Slice (map (\<lambda>a. \<lparr> ma_Name = ar_Name a, ma_IntegrationID = ar_IntegrationID a \<rparr>)
                        (elems ars)))"
proof -
  define as where "as = elems ars"
  define conv where
    "conv = (\<lambda>a :: SpotifyArtist.
               \<lparr> ma_Name = ar_Name a, ma_IntegrationID = ar_IntegrationID a \<rparr>)"
  define b where "b = length (MusicArtists h)"
  define I where "I = (\<lambda>(i :: nat) (p :: MusicAlbum_mem \<times> memory).
      fst p = ma0\<lparr> malm_Artists := malm_Artists (fst p) \<rparr>
      \<and> snd p = h\<lparr> MusicArtists := MusicArtists (snd p) \<rparr>
      \<and> own_acc b (MusicArtists (snd p)) (malm_Artists (fst p)) (map conv (take i as))
      \<and> malm_Artists (fst p) \<noteq> HNil
      \<and> take b (MusicArtists (snd p)) = MusicArtists h \<and> b \<le> length (MusicArtists (snd p)))"
  have n: "hlen (sam_Artists sam) = length as"
    using repr_slice_eq[OF ra] by (simp add: as_def)
  have init: "I 0 (ma0\<lparr> malm_Artists := HSlice b 0 0 0 \<rparr>,
                  h\<lparr> MusicArtists := MusicArtists h @ [[]] \<rparr>)"
    by (simp add: I_def own_acc_def b_def)
  have step: "\<exists>p'. body i p = Some p' \<and> I (Suc i) p'" if "i < length as" "I i p" for i p
  proof -
    define s where "s = malm_Artists (fst p)"
    define m where "m = MusicArtists (snd p)"
    from that(2) have
      p: "p = (ma0\<lparr> malm_Artists := s \<rparr>, h\<lparr> MusicArtists := m \<rparr>)"
      and o: "own_acc b m s (map conv (take i as))" "take b m = MusicArtists h" "b \<le> length m"
      unfolding I_def s_def m_def by (simp_all add: prod_eq_iff)
    have ix: "hindex (Artists h) (sam_Artists sam) i = Some (as ! i)"
      using hindex_repr_slice_eq[OF ra] that(1) by (simp add: as_def)
    from happend_own_acc[OF o(1) o(3), of zero_MusicArtist grow "conv (as ! i)"]
    obtain m' s' where
      a: "happend zero_MusicArtist grow m s (conv (as ! i)) = Some (m', s')"
         "own_acc b m' s' (map conv (take i as) @ [conv (as ! i)])" "s' \<noteq> HNil"
         "take b m' = take b m" "length m \<le> length m'"
      by blast
    have t: "map conv (take i as) @ [conv (as ! i)] = map conv (take (Suc i) as)"
      using that(1) by (simp add: take_Suc_conv_app_nth)
    have "body i p = Some (ma0\<lparr> malm_Artists := s' \<rparr>, h\<lparr> MusicArtists := m' \<rparr>)"
      using ix a(1) by (simp add: body_def p conv_def)
    moreover have "I (Suc i) (ma0\<lparr> malm_Artists := s' \<rparr>, h\<lparr> MusicArtists := m' \<rparr>)"
      unfolding I_def using a o t by simp
    ultimately show ?thesis by blast
  qed
  have "\<exists>p'. range_loop (length as) body
          (ma0\<lparr> malm_Artists := HSlice b 0 0 0 \<rparr>, h\<lparr> MusicArtists := MusicArtists h @ [[]] \<rparr>)
        = Some p' \<and> I (length as) p'"
  proof (rule range_loop_inv[where I = I])
    show "I 0 (ma0\<lparr> malm_Artists := HSlice b 0 0 0 \<rparr>,
               h\<lparr> MusicArtists := MusicArtists h @ [[]] \<rparr>)"
      by (rule init)
  next
    fix i p
    assume "i < length as" "I i p"
    then show "\<exists>p'. body i p = Some p' \<and> I (Suc i) p'"
      by (rule step)
  qed
  then obtain p' where l: "range_loop (length as) body
          (ma0\<lparr> malm_Artists := HSlice b 0 0 0 \<rparr>, h\<lparr> MusicArtists := MusicArtists h @ [[]] \<rparr>)
        = Some p'" "I (length as) p'"
    by blast
  define s where "s = malm_Artists (fst p')"
  define m where "m = MusicArtists (snd p')"
  from l(2) have
    p': "p' = (ma0\<lparr> malm_Artists := s \<rparr>, h\<lparr> MusicArtists := m \<rparr>)"
    and o: "own_acc b m s (map conv as)" "s \<noteq> HNil" "take b m = MusicArtists h"
    unfolding I_def s_def m_def by (simp_all add: prod_eq_iff)
  have e: "extends (MusicArtists h) m"
    using o(3) by (simp add: extends_def b_def)
  have art: "repr_slice (=) m s (Slice (map conv as))"
    using repr_slice_own_acc[OF o(1) o(2)] .
  show ?thesis
    using l(1) p' e art unfolding n b_def conv_def as_def by blast
qed

lemma ConvertToMusicAlbum_mem_spec:
  assumes r: "repr_SpotifyAlbum sa h sam"
  shows "\<exists>out h'. ConvertToMusicAlbum_mem grow sam h = Some (out, h') \<and> frame h h'
           \<and> repr_MusicAlbum h' out (ConvertToMusicAlbum sa)"
proof -
  define ts where "ts = elems (tr_Items (sa_TracksCollection sa))"
  define f where "f = (\<lambda>t. ConvertToMusicTrack (set_Album t sa))"
  define conv where
    "conv = (\<lambda>a :: SpotifyArtist.
               \<lparr> ma_Name = ar_Name a, ma_IntegrationID = ar_IntegrationID a \<rparr>)"
  define b where "b = length (MusicTracks h)"
  define ma0 where "ma0 = \<lparr>
            malm_Name = sam_Name sam,
            malm_AlbumArt = sam_Images sam,
            malm_ReleaseDate = sam_ReleaseDate sam,
            malm_Artists = HNil,
            malm_Tracks = HNil,
            malm_IntegrationID = sam_IntegrationID sam \<rparr>"
  define body where "body = (\<lambda>(i :: nat) (ma :: MusicAlbum_mem, h :: memory). do {
                      track \<leftarrow> hindex (Tracks h) (sam_TracksCollection sam) i;
                      let track = track\<lparr> stm_Album := sam \<rparr>;
                      (mt, h) \<leftarrow> ConvertToMusicTrack_mem grow track h;
                      (m, s) \<leftarrow> happend zero_MusicTrack_mem grow (MusicTracks h)
                                  (malm_Tracks ma) mt;
                      Some (ma\<lparr> malm_Tracks := s \<rparr>, h\<lparr> MusicTracks := m \<rparr>)
                    })"
  note g = repr_SpotifyAlbum_fields[OF r]
  have ra: "repr_slice (=) (Artists h) (sam_Artists sam) (sa_Artists sa)"
    and ri: "repr_slice (=) (AlbumImages h) (sam_Images sam) (sa_Images sa)"
    using g by simp_all
  from repr_SpotifyTracksResult_obtain[OF g[THEN conjunct2, THEN conjunct2, THEN conjunct2,
        THEN conjunct2, THEN conjunct2]]
  obtain stms where
    rd: "hread (Tracks h) (sam_TracksCollection sam) = Some stms"
    and all: "list_all2 (\<lambda>stm t. repr_SpotifyTrack t h stm) stms ts"
    and n: "hlen (sam_TracksCollection sam) = length stms"
    unfolding ts_def by blast
  have len: "length stms = length ts"
    using all by (rule list_all2_lengthD)
  from album_artists_loop_mem[OF ra, of grow ma0] obtain sA mA where
    l1: "range_loop (hlen (sam_Artists sam))
           (\<lambda>(i :: nat) (ma :: MusicAlbum_mem, h :: memory). do {
                  artist \<leftarrow> hindex (Artists h) (sam_Artists sam) i;
                  let musicArtist = \<lparr> ma_Name = ar_Name artist,
                                      ma_IntegrationID = ar_IntegrationID artist \<rparr>;
                  (m, s) \<leftarrow> happend zero_MusicArtist grow (MusicArtists h)
                              (malm_Artists ma) musicArtist;
                  Some (ma\<lparr> malm_Artists := s \<rparr>, h\<lparr> MusicArtists := m \<rparr>)
                })
           (ma0\<lparr> malm_Artists := HSlice (length (MusicArtists h)) 0 0 0 \<rparr>,
            h\<lparr> MusicArtists := MusicArtists h @ [[]] \<rparr>)
         = Some (ma0\<lparr> malm_Artists := sA \<rparr>, h\<lparr> MusicArtists := mA \<rparr>)"
    and eA: "extends (MusicArtists h) mA"
    and rA: "repr_slice (=) mA sA (Slice (map conv (elems (sa_Artists sa))))"
    unfolding conv_def by blast
  define ma1 where "ma1 = ma0\<lparr> malm_Artists := sA \<rparr>"
  define h1 where "h1 = h\<lparr> MusicArtists := mA \<rparr>"
  have f1: "frame h h1"
    using eA by (simp add: frame_def h1_def extends_refl)
  have unf: "ConvertToMusicAlbum_mem grow sam h
      = (if 0 < length ts then range_loop (length ts) body (ma1, h1) else Some (ma1, h1))"
    using l1 n len
    by (simp add: ConvertToMusicAlbum_mem_def hempty_def ma0_def[symmetric] body_def
          ma1_def h1_def)
  have flds: "malm_Name ma1 = sa_Name sa" "malm_ReleaseDate ma1 = sa_ReleaseDate sa"
      "malm_IntegrationID ma1 = sa_IntegrationID sa" "malm_AlbumArt ma1 = sam_Images sam"
      "malm_Artists ma1 = sA" "malm_Tracks ma1 = HNil"
    using g by (simp_all add: ma1_def ma0_def)
  show ?thesis
  proof (cases "ts = []")
    case True
    have "repr_MusicAlbum h1 ma1 (ConvertToMusicAlbum sa)"
      using True flds ri rA
      by (simp add: repr_MusicAlbum_def ConvertToMusicAlbum_eq ts_def h1_def conv_def
            repr_slice_HNil)
    then show ?thesis
      using unf True f1 by auto
  next
    case False
    define I where "I = (\<lambda>(i :: nat) (p :: MusicAlbum_mem \<times> memory).
        fst p = ma1\<lparr> malm_Tracks := malm_Tracks (fst p) \<rparr>
        \<and> frame h1 (snd p)
        \<and> (0 < i \<longrightarrow> malm_Tracks (fst p) \<noteq> HNil)
        \<and> (\<exists>hs. own_acc b (MusicTracks (snd p)) (malm_Tracks (fst p)) hs
                 \<and> list_all2 (repr_MusicTrack (snd p)) hs (map f (take i ts))))"
    have init: "I 0 (ma1, h1)"
      by (simp add: I_def flds frame_refl own_acc_def)
    have step: "\<exists>p'. body i p = Some p' \<and> I (Suc i) p'" if i: "i < length ts" and inv: "I i p"
      for i p
    proof -
      define ma where "ma = fst p"
      define h2 where "h2 = snd p"
      from inv obtain hs where
        p: "p = (ma, h2)" and ma: "ma = ma1\<lparr> malm_Tracks := malm_Tracks ma \<rparr>"
        and fr: "frame h1 h2"
        and o: "own_acc b (MusicTracks h2) (malm_Tracks ma) hs"
        and hs: "list_all2 (repr_MusicTrack h2) hs (map f (take i ts))"
        unfolding I_def ma_def h2_def by auto
      have fr2: "frame h h2"
        using f1 fr by (rule frame_trans)
      have ix: "hindex (Tracks h2) (sam_TracksCollection sam) i = Some (stms ! i)"
        using fr2 rd i len by (simp add: hindex_def frame_def)
      have "repr_SpotifyTrack (ts ! i) h (stms ! i)"
        using list_all2_nthD2[OF all i] .
      then have "repr_SpotifyTrack (ts ! i) h2 (stms ! i)"
        using fr2 by (rule repr_SpotifyTrack_frame[rotated])
      moreover have "repr_SpotifyAlbum sa h2 sam"
        using fr2 r by (rule repr_SpotifyAlbum_frame)
      ultimately have
        "repr_SpotifyTrack (set_Album (ts ! i) sa) h2 ((stms ! i)\<lparr> stm_Album := sam \<rparr>)"
        by (rule repr_SpotifyTrack_set_Album)
      from ConvertToMusicTrack_mem_spec[OF this, of grow] obtain mt mB where
        c: "ConvertToMusicTrack_mem grow ((stms ! i)\<lparr> stm_Album := sam \<rparr>) h2
              = Some (mt, h2\<lparr> MusicArtists := mB \<rparr>)"
        and e: "extends (MusicArtists h2) mB"
        and rm: "repr_MusicTrack (h2\<lparr> MusicArtists := mB \<rparr>) mt (f (ts ! i))"
        unfolding f_def by blast
      have bl: "b \<le> length (MusicTracks h2)"
        using fr2 extends_length by (auto simp: frame_def b_def)
      from happend_own_acc[OF o bl, of zero_MusicTrack_mem grow mt] obtain m' s' where
        a: "happend zero_MusicTrack_mem grow (MusicTracks h2) (malm_Tracks ma) mt = Some (m', s')"
           "own_acc b m' s' (hs @ [mt])" "s' \<noteq> HNil"
           "take b m' = take b (MusicTracks h2)"
        by blast
      define h3 where "h3 = h2\<lparr> MusicArtists := mB, MusicTracks := m' \<rparr>"
      have b1: "body i p = Some (ma\<lparr> malm_Tracks := s' \<rparr>, h3)"
        using ix c a(1) by (simp add: body_def p h3_def)
      have tk: "take b (MusicTracks h2) = MusicTracks h1"
        using fr2 by (simp add: frame_def extends_def b_def h1_def)
      have "MusicTracks h1 = MusicTracks h"
        by (simp add: h1_def)
      then have f3: "frame h1 h3"
        using fr e a(4) tk extends_trans[of "MusicArtists h1" "MusicArtists h2" mB]
        by (simp add: frame_def h3_def extends_def b_def)
      have "list_all2 (repr_MusicTrack h3) hs (map f (take i ts))"
        using hs e
        by (auto simp: h3_def elim!: list_all2_mono intro: repr_MusicTrack_stable)
      moreover have "repr_MusicTrack h3 mt (f (ts ! i))"
        by (rule repr_MusicTrack_stable[OF _ _ rm]) (simp_all add: h3_def extends_refl)
      ultimately have la:
        "list_all2 (repr_MusicTrack h3) (hs @ [mt]) (map f (take (Suc i) ts))"
        using i by (simp add: take_Suc_conv_app_nth list_all2_appendI)
      have pq: "ma\<lparr> malm_Tracks := s' \<rparr> = ma1\<lparr> malm_Tracks := s' \<rparr>"
        by (subst ma) simp
      have "I (Suc i) (ma\<lparr> malm_Tracks := s' \<rparr>, h3)"
        unfolding I_def using la pq f3 a(2,3)
        by (auto simp: h3_def intro!: exI[of _ "hs @ [mt]"])
      with b1 show ?thesis by blast
    qed
    have "\<exists>p'. range_loop (length ts) body (ma1, h1) = Some p' \<and> I (length ts) p'"
    proof (rule range_loop_inv[where I = I])
      show "I 0 (ma1, h1)" by (rule init)
    next
      fix i p
      assume "i < length ts" "I i p"
      then show "\<exists>p'. body i p = Some p' \<and> I (Suc i) p'" by (rule step)
    qed
    then obtain p' where l: "range_loop (length ts) body (ma1, h1) = Some p'"
        "I (length ts) p'"
      by blast
    define out where "out = fst p'"
    define h' where "h' = snd p'"
    from l(2) False obtain hs where
      p': "p' = (out, h')" and out: "out = ma1\<lparr> malm_Tracks := malm_Tracks out \<rparr>"
      and fr: "frame h1 h'" and nn: "malm_Tracks out \<noteq> HNil"
      and o: "own_acc b (MusicTracks h') (malm_Tracks out) hs"
      and hs: "list_all2 (repr_MusicTrack h') hs (map f ts)"
      unfolding I_def out_def h'_def by auto
    have fr': "frame h h'"
      using f1 fr by (rule frame_trans)
    have t: "repr_slice (repr_MusicTrack h') (MusicTracks h') (malm_Tracks out) (Slice (map f ts))"
      using repr_slice_own_acc_rel[OF o nn hs] .
    have of: "malm_Name out = sa_Name sa" "malm_ReleaseDate out = sa_ReleaseDate sa"
        "malm_IntegrationID out = sa_IntegrationID sa" "malm_AlbumArt out = sam_Images sam"
        "malm_Artists out = sA"
      using flds by (subst out, simp)+
    have "extends mA (MusicArtists h')"
      using fr by (simp add: frame_def h1_def)
    then have "repr_slice (=) (MusicArtists h') sA (Slice (map conv (elems (sa_Artists sa))))"
      using rA by (rule repr_slice_extends)
    then have "repr_MusicAlbum h' out (ConvertToMusicAlbum sa)"
      using False t ri fr' of
      by (simp add: repr_MusicAlbum_def ConvertToMusicAlbum_eq ts_def f_def frame_def conv_def)
    then show ?thesis
      using unf l(1) p' fr' False by auto
  qed
qed

lemma ConvertToMusicTrack_str_eq:
  "ConvertToMusicTrack_str st = \<lparr>
     mts_Name = st_Name st,
     mts_PreviewURL = st_PreviewURL st,
     mts_AlbumName = sa_Name (st_Album st),
     mts_AlbumArt = sa_Images (st_Album st),
     mts_AlbumReleaseDate = sa_ReleaseDate (st_Album st),
     mts_IntegrationID = st_IntegrationID st,
     mts_Source = ''spotify'',
     mts_ExternalURL = eu_Spotify (st_ExternalURL st),
     mts_Artists = strings_Join (Slice (map ar_Name (elems (st_Artists st)))) '', '' \<rparr>"
  by (simp add: ConvertToMusicTrack_str_def Let_def names_loop strings_Join_def)

lemma ConvertToMusicPlaylist_str_eq:
  "ConvertToMusicPlaylist_str sp = \<lparr>
     mps_Name = sp_Name sp,
     mps_PlaylistArt = sp_Images sp,
     mps_Tracks = (if elems (pts_Items (sp_TracksCollection sp)) = [] then NilSlice
                   else Slice (map (\<lambda>w. ConvertToMusicTrack_str (pt_Track w))
                                 (elems (pts_Items (sp_TracksCollection sp))))),
     mps_IntegrationID = sp_IntegrationID sp \<rparr>"
  by (simp add: ConvertToMusicPlaylist_str_def Let_def playlist_str_loop len_def)

lemma repr_MusicTrack_str_stable:
  "AlbumImages h' = AlbumImages h \<Longrightarrow> repr_MusicTrack_str h m mt
   \<Longrightarrow> repr_MusicTrack_str h' m mt"
  by (simp add: repr_MusicTrack_str_def)

lemma ConvertToMusicTrack_str_mem_spec:
  assumes r: "repr_SpotifyTrack st h stm"
  shows "\<exists>out m. ConvertToMusicTrack_str_mem grow stm h = Some (out, h\<lparr> Names := m \<rparr>)
           \<and> extends (Names h) m
           \<and> repr_MusicTrack_str (h\<lparr> Names := m \<rparr>) out (ConvertToMusicTrack_str st)"
proof -
  define as where "as = elems (st_Artists st)"
  define b where "b = length (Names h)"
  define mt0 where "mt0 = \<lparr>
            mtsm_Name = stm_Name stm,
            mtsm_PreviewURL = stm_PreviewURL stm,
            mtsm_AlbumName = sam_Name (stm_Album stm),
            mtsm_AlbumArt = sam_Images (stm_Album stm),
            mtsm_AlbumReleaseDate = sam_ReleaseDate (stm_Album stm),
            mtsm_IntegrationID = stm_IntegrationID stm,
            mtsm_Source = ''spotify'',
            mtsm_ExternalURL = eu_Spotify (stm_ExternalURL stm),
            mtsm_Artists = '''' \<rparr>"
  define body where "body = (\<lambda>(i :: nat) (artistNames :: hslice, h :: memory). do {
                  artist \<leftarrow> hindex (Artists h) (stm_Artists stm) i;
                  (m, s) \<leftarrow> happend '''' grow (Names h) artistNames (ar_Name artist);
                  Some (s, h\<lparr> Names := m \<rparr>)
                })"
  define I where "I = (\<lambda>(i :: nat) (p :: hslice \<times> memory).
      snd p = h\<lparr> Names := Names (snd p) \<rparr>
      \<and> own_acc b (Names (snd p)) (fst p) (map ar_Name (take i as))
      \<and> take b (Names (snd p)) = Names h \<and> b \<le> length (Names (snd p)))"
  note f = repr_SpotifyTrack_fields[OF r]
  note g = repr_SpotifyAlbum_fields[OF f[THEN conjunct1]]
  have ra: "repr_slice (=) (Artists h) (stm_Artists stm) (st_Artists st)"
    using f by simp
  have n: "hlen (stm_Artists stm) = length as"
    using repr_slice_eq[OF ra] by (simp add: as_def)
  have init: "I 0 (HNil, h)"
    by (simp add: I_def own_acc_def b_def)
  have step: "\<exists>p'. body i p = Some p' \<and> I (Suc i) p'" if "i < length as" "I i p" for i p
  proof -
    define s where "s = fst p"
    define m where "m = Names (snd p)"
    from that(2) have
      p: "p = (s, h\<lparr> Names := m \<rparr>)"
      and o: "own_acc b m s (map ar_Name (take i as))" "take b m = Names h" "b \<le> length m"
      unfolding I_def s_def m_def by (simp_all add: prod_eq_iff)
    have ix: "hindex (Artists h) (stm_Artists stm) i = Some (as ! i)"
      using hindex_repr_slice_eq[OF ra] that(1) by (simp add: as_def)
    from happend_own_acc[OF o(1) o(3), of "''''" grow "ar_Name (as ! i)"]
    obtain m' s' where
      a: "happend '''' grow m s (ar_Name (as ! i)) = Some (m', s')"
         "own_acc b m' s' (map ar_Name (take i as) @ [ar_Name (as ! i)])"
         "take b m' = take b m" "length m \<le> length m'"
      by blast
    have t: "map ar_Name (take i as) @ [ar_Name (as ! i)] = map ar_Name (take (Suc i) as)"
      using that(1) by (simp add: take_Suc_conv_app_nth)
    have "body i p = Some (s', h\<lparr> Names := m' \<rparr>)"
      using ix a(1) by (simp add: body_def p)
    moreover have "I (Suc i) (s', h\<lparr> Names := m' \<rparr>)"
      unfolding I_def using a o t by simp
    ultimately show ?thesis by blast
  qed
  have "\<exists>p'. range_loop (length as) body (HNil, h) = Some p' \<and> I (length as) p'"
  proof (rule range_loop_inv[where I = I])
    show "I 0 (HNil, h)"
      by (rule init)
  next
    fix i p
    assume "i < length as" "I i p"
    then show "\<exists>p'. body i p = Some p' \<and> I (Suc i) p'"
      by (rule step)
  qed
  then obtain p' where l: "range_loop (length as) body (HNil, h) = Some p'" "I (length as) p'"
    by blast
  define s where "s = fst p'"
  define m where "m = Names (snd p')"
  from l(2) have
    p': "p' = (s, h\<lparr> Names := m \<rparr>)"
    and o: "own_acc b m s (map ar_Name as)" "take b m = Names h"
    unfolding I_def s_def m_def by (simp_all add: prod_eq_iff)
  have e: "extends (Names h) m"
    using o(2) by (simp add: extends_def b_def)
  have rd: "hread m s = Some (map ar_Name as)"
    using o(1) by (rule hread_own_acc)
  have unf: "ConvertToMusicTrack_str_mem grow stm h
      = Some (mt0\<lparr> mtsm_Artists := strings_Join (Slice (map ar_Name as)) '', '' \<rparr>,
              h\<lparr> Names := m \<rparr>)"
    using l(1) rd
    by (simp add: ConvertToMusicTrack_str_mem_def n body_def[symmetric] mt0_def[symmetric] p')
  have "repr_MusicTrack_str (h\<lparr> Names := m \<rparr>)
          (mt0\<lparr> mtsm_Artists := strings_Join (Slice (map ar_Name as)) '', '' \<rparr>)
          (ConvertToMusicTrack_str st)"
    using f g
    by (simp add: repr_MusicTrack_str_def ConvertToMusicTrack_str_eq mt0_def as_def)
  then show ?thesis
    using unf e by blast
qed

lemma ConvertToMusicPlaylist_str_mem_spec:
  assumes r: "repr_SpotifyPlaylist sp h spm"
  shows "\<exists>out h'. ConvertToMusicPlaylist_str_mem grow spm h = Some (out, h') \<and> frame h h'
           \<and> repr_MusicPlaylist_str h' out (ConvertToMusicPlaylist_str sp)"
proof -
  define pts where "pts = elems (pts_Items (sp_TracksCollection sp))"
  define f where "f = (\<lambda>w :: SpotifyPlaylistTrack. ConvertToMusicTrack_str (pt_Track w))"
  define b where "b = length (MusicTracks_str h)"
  define pl0 where "pl0 = \<lparr>
            mpsm_Name = spm_Name spm,
            mpsm_PlaylistArt = spm_Images spm,
            mpsm_Tracks = HNil,
            mpsm_IntegrationID = spm_IntegrationID spm \<rparr>"
  define body where "body = (\<lambda>(i :: nat) (playlist :: MusicPlaylist_str_mem, h :: memory). do {
                    track \<leftarrow> hindex (PlaylistTracks h) (spm_TracksCollection spm) i;
                    (mt, h) \<leftarrow> ConvertToMusicTrack_str_mem grow (ptm_Track track) h;
                    (m, s) \<leftarrow> happend zero_MusicTrack_str_mem grow (MusicTracks_str h)
                                (mpsm_Tracks playlist) mt;
                    Some (playlist\<lparr> mpsm_Tracks := s \<rparr>, h\<lparr> MusicTracks_str := m \<rparr>)
                  })"
  define I where "I = (\<lambda>(i :: nat) (p :: MusicPlaylist_str_mem \<times> memory).
      fst p = pl0\<lparr> mpsm_Tracks := mpsm_Tracks (fst p) \<rparr>
      \<and> frame h (snd p)
      \<and> (0 < i \<longrightarrow> mpsm_Tracks (fst p) \<noteq> HNil)
      \<and> (\<exists>hs. own_acc b (MusicTracks_str (snd p)) (mpsm_Tracks (fst p)) hs
               \<and> list_all2 (repr_MusicTrack_str (snd p)) hs (map f (take i pts))))"
  from r have flds: "spm_Name spm = sp_Name sp" "spm_IntegrationID spm = sp_IntegrationID sp"
      "repr_slice (=) (PlaylistImages h) (spm_Images spm) (sp_Images sp)"
    and rt: "repr_slice (\<lambda>tm t. repr_SpotifyTrack (pt_Track t) h (ptm_Track tm))
            (PlaylistTracks h) (spm_TracksCollection spm) (pts_Items (sp_TracksCollection sp))"
    by (simp_all add: repr_SpotifyPlaylist_def)
  from repr_slice_obtain[OF rt] obtain ptms where
    rd: "hread (PlaylistTracks h) (spm_TracksCollection spm) = Some ptms"
    and all: "list_all2 (\<lambda>tm t. repr_SpotifyTrack (pt_Track t) h (ptm_Track tm)) ptms pts"
    and n: "hlen (spm_TracksCollection spm) = length ptms"
    unfolding pts_def by blast
  have len: "length ptms = length pts"
    using all by (rule list_all2_lengthD)
  show ?thesis
  proof (cases "pts = []")
    case True
    then have "ConvertToMusicPlaylist_str_mem grow spm h = Some (pl0, h)"
      using n len by (simp add: ConvertToMusicPlaylist_str_mem_def pl0_def)
    moreover have "repr_MusicPlaylist_str h pl0 (ConvertToMusicPlaylist_str sp)"
      using True flds
      by (simp add: repr_MusicPlaylist_str_def ConvertToMusicPlaylist_str_eq pl0_def pts_def
            repr_slice_HNil)
    ultimately show ?thesis
      using frame_refl by blast
  next
    case False
    then have unf: "ConvertToMusicPlaylist_str_mem grow spm h
        = range_loop (length pts) body (pl0, h)"
      using n len by (simp add: ConvertToMusicPlaylist_str_mem_def pl0_def body_def)
    have init: "I 0 (pl0, h)"
      by (simp add: I_def pl0_def frame_refl own_acc_def)
    have step: "\<exists>p'. body i p = Some p' \<and> I (Suc i) p'" if i: "i < length pts" and inv: "I i p"
      for i p
    proof -
      define pl where "pl = fst p"
      define h1 where "h1 = snd p"
      from inv obtain hs where
        p: "p = (pl, h1)" and pl: "pl = pl0\<lparr> mpsm_Tracks := mpsm_Tracks pl \<rparr>"
        and fr: "frame h h1"
        and o: "own_acc b (MusicTracks_str h1) (mpsm_Tracks pl) hs"
        and hs: "list_all2 (repr_MusicTrack_str h1) hs (map f (take i pts))"
        unfolding I_def pl_def h1_def by auto
      have ix: "hindex (PlaylistTracks h1) (spm_TracksCollection spm) i = Some (ptms ! i)"
        using fr rd i len by (simp add: hindex_def frame_def)
      have "repr_SpotifyTrack (pt_Track (pts ! i)) h (ptm_Track (ptms ! i))"
        using list_all2_nthD2[OF all i] .
      then have "repr_SpotifyTrack (pt_Track (pts ! i)) h1 (ptm_Track (ptms ! i))"
        using fr by (rule repr_SpotifyTrack_frame[rotated])
      from ConvertToMusicTrack_str_mem_spec[OF this, of grow] obtain mt mN where
        c: "ConvertToMusicTrack_str_mem grow (ptm_Track (ptms ! i)) h1
              = Some (mt, h1\<lparr> Names := mN \<rparr>)"
        and e: "extends (Names h1) mN"
        and rm: "repr_MusicTrack_str (h1\<lparr> Names := mN \<rparr>) mt (f (pts ! i))"
        unfolding f_def by blast
      have bl: "b \<le> length (MusicTracks_str h1)"
        using fr extends_length by (auto simp: frame_def b_def)
      from happend_own_acc[OF o bl, of zero_MusicTrack_str_mem grow mt] obtain m' s' where
        a: "happend zero_MusicTrack_str_mem grow (MusicTracks_str h1) (mpsm_Tracks pl) mt
              = Some (m', s')"
           "own_acc b m' s' (hs @ [mt])" "s' \<noteq> HNil"
           "take b m' = take b (MusicTracks_str h1)"
        by blast
      define h3 where "h3 = h1\<lparr> Names := mN, MusicTracks_str := m' \<rparr>"
      have b1: "body i p = Some (pl\<lparr> mpsm_Tracks := s' \<rparr>, h3)"
        using ix c a(1) by (simp add: body_def p h3_def)
      have "take b (MusicTracks_str h1) = MusicTracks_str h"
        using fr by (simp add: frame_def extends_def b_def)
      then have f3: "frame h h3"
        using fr e a(4) extends_trans[of "Names h" "Names h1" mN]
        by (simp add: frame_def h3_def extends_def b_def)
      have "list_all2 (repr_MusicTrack_str h3) hs (map f (take i pts))"
        using hs
        by (auto simp: h3_def elim!: list_all2_mono intro: repr_MusicTrack_str_stable)
      moreover have "repr_MusicTrack_str h3 mt (f (pts ! i))"
        by (rule repr_MusicTrack_str_stable[OF _ rm]) (simp add: h3_def)
      ultimately have la:
        "list_all2 (repr_MusicTrack_str h3) (hs @ [mt]) (map f (take (Suc i) pts))"
        using i by (simp add: take_Suc_conv_app_nth list_all2_appendI)
      have pq: "pl\<lparr> mpsm_Tracks := s' \<rparr> = pl0\<lparr> mpsm_Tracks := s' \<rparr>"
        by (subst pl) simp
      have "I (Suc i) (pl\<lparr> mpsm_Tracks := s' \<rparr>, h3)"
        unfolding I_def using la pq f3 a(2,3)
        by (auto simp: h3_def intro!: exI[of _ "hs @ [mt]"])
      with b1 show ?thesis by blast
    qed
    have "\<exists>p'. range_loop (length pts) body (pl0, h) = Some p' \<and> I (length pts) p'"
    proof (rule range_loop_inv[where I = I])
      show "I 0 (pl0, h)" by (rule init)
    next
      fix i p
      assume "i < length pts" "I i p"
      then show "\<exists>p'. body i p = Some p' \<and> I (Suc i) p'" by (rule step)
    qed
    then obtain p' where l: "range_loop (length pts) body (pl0, h) = Some p'"
        "I (length pts) p'"
      by blast
    define out where "out = fst p'"
    define h' where "h' = snd p'"
    from l(2) False obtain hs where
      p': "p' = (out, h')" and out: "out = pl0\<lparr> mpsm_Tracks := mpsm_Tracks out \<rparr>"
      and fr: "frame h h'" and nn: "mpsm_Tracks out \<noteq> HNil"
      and o: "own_acc b (MusicTracks_str h') (mpsm_Tracks out) hs"
      and hs: "list_all2 (repr_MusicTrack_str h') hs (map f pts)"
      unfolding I_def out_def h'_def by auto
    have t: "repr_slice (repr_MusicTrack_str h') (MusicTracks_str h') (mpsm_Tracks out)
               (Slice (map f pts))"
      using repr_slice_own_acc_rel[OF o nn hs] .
    have "mpsm_Name out = sp_Name sp" "mpsm_IntegrationID out = sp_IntegrationID sp"
        "mpsm_PlaylistArt out = spm_Images spm"
      using flds by (subst out, simp add: pl0_def)+
    then have "repr_MusicPlaylist_str h' out (ConvertToMusicPlaylist_str sp)"
      using False t flds(3) fr
      by (simp add: repr_MusicPlaylist_str_def ConvertToMusicPlaylist_str_eq pts_def f_def
            frame_def)
    then show ?thesis
      using unf l(1) p' fr by auto
  qed
qed

lemma repr_SpotifyPlaylist_frame:
  assumes "frame h h'" "repr_SpotifyPlaylist sp h spm"
  shows "repr_SpotifyPlaylist sp h' spm"
proof -
  have "\<And>t. repr_SpotifyTrack t h' = repr_SpotifyTrack t h"
    using assms(1) by (intro repr_Spotify_inputs_only(1)) (simp_all add: frame_def)
  then show ?thesis
    using assms by (simp add: repr_SpotifyPlaylist_def frame_def)
qed

lemma ConvertToMusicTrack_mem_frame:
  assumes "repr_SpotifyTrack st h stm"
  shows "\<exists>out h'. ConvertToMusicTrack_mem grow stm h = Some (out, h') \<and> frame h h'
           \<and> repr_MusicTrack h' out (ConvertToMusicTrack st)"
proof -
  from ConvertToMusicTrack_mem_spec[OF assms, of grow] obtain out m where
    "ConvertToMusicTrack_mem grow stm h = Some (out, h\<lparr> MusicArtists := m \<rparr>)"
    "extends (MusicArtists h) m"
    "repr_MusicTrack (h\<lparr> MusicArtists := m \<rparr>) out (ConvertToMusicTrack st)"
    by blast
  moreover from this(2) have "frame h (h\<lparr> MusicArtists := m \<rparr>)"
    by (simp add: frame_def extends_refl)
  ultimately show ?thesis by blast
qed

lemma ConvertToMusicTrack_str_mem_frame:
  assumes "repr_SpotifyTrack st h stm"
  shows "\<exists>out h'. ConvertToMusicTrack_str_mem grow stm h = Some (out, h') \<and> frame h h'
           \<and> repr_MusicTrack_str h' out (ConvertToMusicTrack_str st)"
proof -
  from ConvertToMusicTrack_str_mem_spec[OF assms, of grow] obtain out m where
    "ConvertToMusicTrack_str_mem grow stm h = Some (out, h\<lparr> Names := m \<rparr>)"
    "extends (Names h) m"
    "repr_MusicTrack_str (h\<lparr> Names := m \<rparr>) out (ConvertToMusicTrack_str st)"
    by blast
  moreover from this(2) have "frame h (h\<lparr> Names := m \<rparr>)"
    by (simp add: frame_def extends_refl)
  ultimately show ?thesis by blast
qed

section \<open>The claims\<close>

text \<open>
  \<^bold>\<open>C1.\<close> A playlist whose nested collection holds \<open>N\<close> track wrappers is translated to
  a playlist whose \<^verbatim>\<open>Tracks\<close> holds exactly \<open>N\<close> tracks, and the \<open>i\<close>-th of them is the
  translation of the inner track of the \<open>i\<close>-th wrapper. This holds for both revisions
  of the translator.
\<close>

theorem ConvertToMusicPlaylist_tracks_in_order:
  "len (mp_Tracks (ConvertToMusicPlaylist sp)) = len (pts_Items (sp_TracksCollection sp))
   \<and> (\<forall>i < len (pts_Items (sp_TracksCollection sp)).
        elems (mp_Tracks (ConvertToMusicPlaylist sp)) ! i
        = ConvertToMusicTrack (pt_Track (elems (pts_Items (sp_TracksCollection sp)) ! i)))
   \<and> len (mps_Tracks (ConvertToMusicPlaylist_str sp)) = len (pts_Items (sp_TracksCollection sp))
   \<and> (\<forall>i < len (pts_Items (sp_TracksCollection sp)).
        elems (mps_Tracks (ConvertToMusicPlaylist_str sp)) ! i
        = ConvertToMusicTrack_str (pt_Track (elems (pts_Items (sp_TracksCollection sp)) ! i)))"
  by (simp add: len_def ConvertToMusicPlaylist_Tracks ConvertToMusicPlaylist_str_Tracks)

text \<open>The Road Trip playlist has one wrapper; the quantifier is used at \<open>i = 0\<close>.\<close>

theorem ConvertToMusicPlaylist_tracks_in_order_witness:
  "len (mp_Tracks (ConvertToMusicPlaylist RoadTrip)) = 1
   \<and> elems (mp_Tracks (ConvertToMusicPlaylist RoadTrip)) ! 0
       = ConvertToMusicTrack (pt_Track (elems (pts_Items (sp_TracksCollection RoadTrip)) ! 0))
   \<and> len (mps_Tracks (ConvertToMusicPlaylist_str RoadTrip)) = 1
   \<and> elems (mps_Tracks (ConvertToMusicPlaylist_str RoadTrip)) ! 0
       = ConvertToMusicTrack_str (pt_Track (elems (pts_Items (sp_TracksCollection RoadTrip)) ! 0))"
proof -
  have n: "len (pts_Items (sp_TracksCollection RoadTrip)) = 1"
    by (simp add: RoadTrip_def len_def)
  show ?thesis
    using ConvertToMusicPlaylist_tracks_in_order [of RoadTrip] unfolding n by simp
qed

text \<open>
  \<^bold>\<open>C2.\<close> The end-to-end scenario, in the revision whose artists are one string. The
  translated Road Trip playlist is the playlist named \<^verbatim>\<open>Road Trip\<close> with id
  \<^verbatim>\<open>abc123\<close> and one track \<^verbatim>\<open>Song A\<close> on \<^verbatim>\<open>Al1\<close>, released \<^verbatim>\<open>2020-01-01\<close>, at
  \<^verbatim>\<open>url1\<close>, from \<^verbatim>\<open>spotify\<close>, by \<^verbatim>\<open>Artist X\<close>; the track also carries its provider
  id \<^verbatim>\<open>t1\<close>, and both art lists are the empty lists of the input.
\<close>

theorem RoadTrip_output:
  "ConvertToMusicPlaylist_str RoadTrip = \<lparr>
     mps_Name = ''Road Trip'',
     mps_PlaylistArt = Slice [],
     mps_Tracks = Slice [\<lparr>
       mts_Name = ''Song A'', mts_PreviewURL = '''', mts_AlbumName = ''Al1'',
       mts_AlbumArt = Slice [], mts_AlbumReleaseDate = ''2020-01-01'',
       mts_IntegrationID = ''t1'', mts_Source = ''spotify'', mts_ExternalURL = ''url1'',
       mts_Artists = ''Artist X'' \<rparr>],
     mps_IntegrationID = ''abc123'' \<rparr>"
  by (simp add: ConvertToMusicPlaylist_str_def ConvertToMusicTrack_str_def RoadTrip_def
        Let_def len_def append_def strings_Join_def)

text \<open>
  The output is not the value that lists only the fields of the scenario, whose track
  has no provider id: neither with the art lists left \<^verbatim>\<open>nil\<close>, as a Go literal that
  omits them has them, nor with the art lists empty.
\<close>

theorem RoadTrip_literal_counterexample:
  "ConvertToMusicPlaylist_str RoadTrip \<noteq> \<lparr>
     mps_Name = ''Road Trip'',
     mps_PlaylistArt = NilSlice,
     mps_Tracks = Slice [\<lparr>
       mts_Name = ''Song A'', mts_PreviewURL = '''', mts_AlbumName = ''Al1'',
       mts_AlbumArt = NilSlice, mts_AlbumReleaseDate = ''2020-01-01'',
       mts_IntegrationID = '''', mts_Source = ''spotify'', mts_ExternalURL = ''url1'',
       mts_Artists = ''Artist X'' \<rparr>],
     mps_IntegrationID = ''abc123'' \<rparr>
   \<and> ConvertToMusicPlaylist_str RoadTrip \<noteq> \<lparr>
     mps_Name = ''Road Trip'',
     mps_PlaylistArt = Slice [],
     mps_Tracks = Slice [\<lparr>
       mts_Name = ''Song A'', mts_PreviewURL = '''', mts_AlbumName = ''Al1'',
       mts_AlbumArt = Slice [], mts_AlbumReleaseDate = ''2020-01-01'',
       mts_IntegrationID = '''', mts_Source = ''spotify'', mts_ExternalURL = ''url1'',
       mts_Artists = ''Artist X'' \<rparr>],
     mps_IntegrationID = ''abc123'' \<rparr>"
  by (simp add: ConvertToMusicPlaylist_str_def ConvertToMusicTrack_str_def RoadTrip_def
        Let_def len_def append_def strings_Join_def)

text \<open>
  \<^bold>\<open>C3.\<close> The artists of a translated track are the artists of the source track, each
  once and in the same order: in the list revision one record per source artist,
  carrying its name and id; in the string revision the names written one after the
  other with \<^verbatim>\<open>", "\<close> between neighbours.
\<close>

theorem ConvertToMusicTrack_artists_in_order:
  "elems (mt_Artists (ConvertToMusicTrack st))
     = map (\<lambda>a. \<lparr> ma_Name = ar_Name a, ma_IntegrationID = ar_IntegrationID a \<rparr>)
         (elems (st_Artists st))
   \<and> map ma_Name (elems (mt_Artists (ConvertToMusicTrack st)))
     = map ar_Name (elems (st_Artists st))
   \<and> mts_Artists (ConvertToMusicTrack_str st)
     = (case map ar_Name (elems (st_Artists st)) of
          [] \<Rightarrow> ''''
        | n # ns \<Rightarrow> n @ concat (map (\<lambda>x. '', '' @ x) ns))"
  by (simp add: ConvertToMusicTrack_eq ConvertToMusicTrack_str_Artists comp_def
        split: list.splits)

text \<open>A track by Ann and Bob.\<close>

theorem ConvertToMusicTrack_artists_in_order_witness:
  "map ma_Name (elems (mt_Artists (ConvertToMusicTrack FeaturedTrack))) = [''Ann'', ''Bob'']
   \<and> mts_Artists (ConvertToMusicTrack_str FeaturedTrack) = ''Ann, Bob''"
  using ConvertToMusicTrack_artists_in_order [of FeaturedTrack]
  by (simp add: FeaturedTrack_def)

text \<open>
  \<^bold>\<open>C4.\<close> A response with status 200 whose body gives no token, or an empty one, makes
  \<^verbatim>\<open>refreshSpotifyToken\<close> return the empty string and an error and leave the client as
  it was, as a response with another status does. Here the token a body gives is the
  last string among the members whose key is \<^verbatim>\<open>access_token\<close> up to case folding, as
  the decoder binds them. A 200 response whose body gives a token that is not empty
  returns that token and no error, and a call that returns no error had such a
  response.
\<close>

theorem refreshSpotifyToken_empty_token_fails:
  "(token_Do w = Inr resp \<and> tk_StatusCode resp = 200
      \<and> body_access_token (tk_Body resp) = ''''
     \<longrightarrow> (\<exists>err. fst (refreshSpotifyToken w o1) = ('''', Some err))
         \<and> fst (snd (refreshSpotifyToken w o1)) = o1)
   \<and> (token_Do w = Inr resp \<and> tk_StatusCode resp \<noteq> 200
     \<longrightarrow> (\<exists>err. fst (refreshSpotifyToken w o1) = ('''', Some err))
         \<and> fst (snd (refreshSpotifyToken w o1)) = o1)
   \<and> (token_NewRequest w = None \<and> token_Do w = Inr resp \<and> tk_StatusCode resp = 200
      \<and> body_access_token (tk_Body resp) \<noteq> ''''
     \<longrightarrow> fst (refreshSpotifyToken w o1) = (body_access_token (tk_Body resp), None))
   \<and> (snd (fst (refreshSpotifyToken w o1)) = None
     \<longrightarrow> (\<exists>resp. token_Do w = Inr resp \<and> tk_StatusCode resp = 200
            \<and> body_access_token (tk_Body resp) \<noteq> ''''
            \<and> fst (fst (refreshSpotifyToken w o1)) = body_access_token (tk_Body resp)))"
proof -
  have c1: "token_Do w = Inr resp \<and> tk_StatusCode resp = 200
      \<and> body_access_token (tk_Body resp) = ''''
     \<longrightarrow> (\<exists>err. fst (refreshSpotifyToken w o1) = ('''', Some err))
         \<and> fst (snd (refreshSpotifyToken w o1)) = o1"
  proof (rule impI)
    assume a: "token_Do w = Inr resp \<and> tk_StatusCode resp = 200
      \<and> body_access_token (tk_Body resp) = ''''"
    show "(\<exists>err. fst (refreshSpotifyToken w o1) = ('''', Some err))
         \<and> fst (snd (refreshSpotifyToken w o1)) = o1"
    proof (cases "token_NewRequest w")
      case None
      then show ?thesis
        using a refreshSpotifyToken_on_200[of w resp o1] by simp
    next
      case (Some err)
      then show ?thesis
        by (simp add: refreshSpotifyToken_def)
    qed
  qed
  have c2: "token_Do w = Inr resp \<and> tk_StatusCode resp \<noteq> 200
     \<longrightarrow> (\<exists>err. fst (refreshSpotifyToken w o1) = ('''', Some err))
         \<and> fst (snd (refreshSpotifyToken w o1)) = o1"
    by (auto simp: refreshSpotifyToken_def Let_def split: option.splits)
  have c3: "token_NewRequest w = None \<and> token_Do w = Inr resp \<and> tk_StatusCode resp = 200
      \<and> body_access_token (tk_Body resp) \<noteq> ''''
     \<longrightarrow> fst (refreshSpotifyToken w o1) = (body_access_token (tk_Body resp), None)"
    using refreshSpotifyToken_on_200[of w resp o1] by simp
  have c4: "snd (fst (refreshSpotifyToken w o1)) = None
     \<longrightarrow> (\<exists>resp. token_Do w = Inr resp \<and> tk_StatusCode resp = 200
            \<and> body_access_token (tk_Body resp) \<noteq> ''''
            \<and> fst (fst (refreshSpotifyToken w o1)) = body_access_token (tk_Body resp))"
  proof (rule impI)
    assume n: "snd (fst (refreshSpotifyToken w o1)) = None"
    then have nr: "token_NewRequest w = None"
      by (auto simp: refreshSpotifyToken_def split: option.splits)
    with n obtain resp' where d: "token_Do w = Inr resp'"
      by (cases "token_Do w") (auto simp: refreshSpotifyToken_def Let_def)
    with n nr have s: "tk_StatusCode resp' = 200"
      by (auto simp: refreshSpotifyToken_def Let_def split: if_splits)
    from n have "body_access_token (tk_Body resp') \<noteq> ''''"
      using refreshSpotifyToken_on_200[OF nr d s, of o1] by (auto split: if_splits)
    then show "\<exists>resp. token_Do w = Inr resp \<and> tk_StatusCode resp = 200
            \<and> body_access_token (tk_Body resp) \<noteq> ''''
            \<and> fst (fst (refreshSpotifyToken w o1)) = body_access_token (tk_Body resp)"
      using refreshSpotifyToken_on_200[OF nr d s, of o1] d s by auto
  qed
  show ?thesis
    by (intro conjI) (rule c1 c2 c3 c4)+
qed

text \<open>
  The five endpoints: an empty token, no token member, status 401, a token, and a
  token under the key \<^verbatim>\<open>Access_Token\<close>.
\<close>

theorem refreshSpotifyToken_empty_token_fails_witness:
  "fst (refreshSpotifyToken EmptyTokenEndpoint
          \<lparr> Token = '''', ClientID = ''id'', ClientSecret = ''secret'' \<rparr>)
     = ('''', Some (errors_New ''Problems getting spotify access token from JSON''))
   \<and> fst (refreshSpotifyToken MissingTokenEndpoint
          \<lparr> Token = '''', ClientID = ''id'', ClientSecret = ''secret'' \<rparr>)
     = ('''', Some (errors_New ''Problems getting spotify access token from JSON''))
   \<and> fst (refreshSpotifyToken UnauthorizedEndpoint
          \<lparr> Token = '''', ClientID = ''id'', ClientSecret = ''secret'' \<rparr>)
     = ('''', Some (errors_New ''spotify token error''))
   \<and> fst (refreshSpotifyToken GrantingEndpoint
          \<lparr> Token = '''', ClientID = ''id'', ClientSecret = ''secret'' \<rparr>)
     = (''BQD'', None)
   \<and> fst (refreshSpotifyToken CaseVariantEndpoint
          \<lparr> Token = '''', ClientID = ''id'', ClientSecret = ''secret'' \<rparr>)
     = (''BQD'', None)"
proof -
  let ?o = "\<lparr> Token = '''', ClientID = ''id'', ClientSecret = ''secret'' \<rparr>"
  have b: "body_access_token (Some (JObject [(''access_token'', JString '''')])) = ''''"
      "body_access_token (Some (JObject [(''token_type'', JString ''Bearer''),
                                          (''expires_in'', JNumber ''3600'')])) = ''''"
      "body_access_token (Some (JObject [(''access_token'', JString ''BQD''),
                                          (''token_type'', JString ''Bearer'')])) = ''BQD''"
      "body_access_token (Some (JObject [(''Access_Token'', JString ''BQD'')])) = ''BQD''"
    by (simp_all add: body_access_token_def and_caseMask_def)
  note t = refreshSpotifyToken_empty_token_fails
  show ?thesis
    using b
      t[of EmptyTokenEndpoint
          "\<lparr> tk_StatusCode = 200, tk_Body = Some (JObject [(''access_token'', JString '''')]) \<rparr>"
          ?o]
      t[of MissingTokenEndpoint
          "\<lparr> tk_StatusCode = 200,
             tk_Body = Some (JObject [(''token_type'', JString ''Bearer''),
                                      (''expires_in'', JNumber ''3600'')]) \<rparr>"
          ?o]
      t[of UnauthorizedEndpoint "\<lparr> tk_StatusCode = 401, tk_Body = None \<rparr>" ?o]
      t[of GrantingEndpoint
          "\<lparr> tk_StatusCode = 200,
             tk_Body = Some (JObject [(''access_token'', JString ''BQD''),
                                      (''token_type'', JString ''Bearer'')]) \<rparr>"
          ?o]
      t[of CaseVariantEndpoint
          "\<lparr> tk_StatusCode = 200,
             tk_Body = Some (JObject [(''Access_Token'', JString ''BQD'')]) \<rparr>"
          ?o]
    by (simp add: EmptyTokenEndpoint_def MissingTokenEndpoint_def UnauthorizedEndpoint_def
          GrantingEndpoint_def CaseVariantEndpoint_def refreshSpotifyToken_def Let_def
          Unmarshal_def and_caseMask_def)
qed

text \<open>
  Read of the members as they are spelled, the body \<^verbatim>\<open>{"Access_Token":"BQD"}\<close> has no
  member \<^verbatim>\<open>access_token\<close>; with status 200 it still yields the token and no error.
\<close>

theorem Access_Token_counterexample:
  "token_Do CaseVariantEndpoint
     = Inr \<lparr> tk_StatusCode = 200,
             tk_Body = Some (JObject [(''Access_Token'', JString ''BQD'')]) \<rparr>
   \<and> map_of [(''Access_Token'', JString ''BQD'')] ''access_token'' = None
   \<and> refreshSpotifyToken CaseVariantEndpoint
        \<lparr> Token = '''', ClientID = ''id'', ClientSecret = ''secret'' \<rparr>
     = ((''BQD'', None),
        \<lparr> Token = ''BQD'', ClientID = ''id'', ClientSecret = ''secret'' \<rparr>,
        [TokenRequest ''id'' ''secret''])"
  by (simp add: CaseVariantEndpoint_def refreshSpotifyToken_def Let_def Unmarshal_def
        and_caseMask_def)

text \<open>
  \<^bold>\<open>C5.\<close> When the token step fails (the request cannot be built, the transport fails,
  or the status is not 200), \<^verbatim>\<open>NewSpotify\<close> returns \<^verbatim>\<open>nil\<close> and an error; \<^verbatim>\<open>main\<close>
  then sends no resource request and prints nothing. In every case \<^verbatim>\<open>NewSpotify\<close>
  returns \<^verbatim>\<open>nil\<close> exactly when it returns an error.
\<close>

theorem NewSpotify_no_client_on_failure:
  "(token_NewRequest (token_ep e) \<noteq> None \<or> (\<exists>err. token_Do (token_ep e) = Inl err)
      \<or> (\<exists>resp. token_Do (token_ep e) = Inr resp \<and> tk_StatusCode resp \<noteq> 200)
     \<longrightarrow> (\<exists>err. fst (NewSpotify (token_ep e) clientID clientSecret) = (None, Some err))
         \<and> (\<forall>u t. GetRequest u t \<notin> set (snd (main e)))
         \<and> (\<forall>mp. fst (main e) \<noteq> Printed mp))
   \<and> (fst (fst (NewSpotify w clientID clientSecret)) = None
        \<longleftrightarrow> snd (fst (NewSpotify w clientID clientSecret)) \<noteq> None)"
proof (intro conjI impI allI)
  assume f: "token_NewRequest (token_ep e) \<noteq> None \<or> (\<exists>err. token_Do (token_ep e) = Inl err)
      \<or> (\<exists>resp. token_Do (token_ep e) = Inr resp \<and> tk_StatusCode resp \<noteq> 200)"
  have r: "\<And>c s. \<exists>err. NewSpotify (token_ep e) c s
              = ((None, Some err),
                 snd (snd (refreshSpotifyToken (token_ep e)
                             \<lparr> Token = '''', ClientID = c, ClientSecret = s \<rparr>)))"
  proof -
    fix c s
    obtain err where
      "fst (refreshSpotifyToken (token_ep e) \<lparr> Token = '''', ClientID = c, ClientSecret = s \<rparr>)
         = ('''', Some err)"
      using refreshSpotifyToken_fails_when [OF f] by blast
    then have "snd (fst (getToken (token_ep e) \<lparr> Token = '''', ClientID = c, ClientSecret = s \<rparr>))
                 = Some err"
      by (simp add: getToken_def)
    from NewSpotify_error [OF this]
    show "\<exists>err. NewSpotify (token_ep e) c s
              = ((None, Some err),
                 snd (snd (refreshSpotifyToken (token_ep e)
                             \<lparr> Token = '''', ClientID = c, ClientSecret = s \<rparr>)))"
      by (simp add: getToken_def)
  qed
  from r [of clientID clientSecret]
  show "\<exists>err. fst (NewSpotify (token_ep e) clientID clientSecret) = (None, Some err)"
    by auto
  show "\<And>u t. GetRequest u t \<notin> set (snd (main e))"
  proof -
    fix u t
    show "GetRequest u t \<notin> set (snd (main e))"
    proof (cases "\<exists>td c s. ReadFile_config e = Inr td \<and> toml_Load e td = None
                     \<and> Get_client_id e = Some c \<and> Get_client_secret e = Some s")
      case True
      then obtain td c s where cfg: "ReadFile_config e = Inr td" "toml_Load e td = None"
          "Get_client_id e = Some c" "Get_client_secret e = Some s"
        by blast
      from r [of c s] obtain err where
        n: "NewSpotify (token_ep e) c s
              = ((None, Some err),
                 snd (snd (refreshSpotifyToken (token_ep e)
                             \<lparr> Token = '''', ClientID = c, ClientSecret = s \<rparr>)))"
        by blast
      show ?thesis
        using refreshSpotifyToken_sends_no_get
        by (simp add: main_def cfg n)
    next
      case False
      then show ?thesis
        by (auto simp: main_def split: sum.splits option.splits)
    qed
  qed
  show "\<And>mp. fst (main e) \<noteq> Printed mp"
  proof -
    fix mp
    show "fst (main e) \<noteq> Printed mp"
    proof (cases "\<exists>td c s. ReadFile_config e = Inr td \<and> toml_Load e td = None
                     \<and> Get_client_id e = Some c \<and> Get_client_secret e = Some s")
      case True
      then obtain td c s where cfg: "ReadFile_config e = Inr td" "toml_Load e td = None"
          "Get_client_id e = Some c" "Get_client_secret e = Some s"
        by blast
      from r [of c s] obtain err where
        n: "NewSpotify (token_ep e) c s
              = ((None, Some err),
                 snd (snd (refreshSpotifyToken (token_ep e)
                             \<lparr> Token = '''', ClientID = c, ClientSecret = s \<rparr>)))"
        by blast
      show ?thesis
        by (simp add: main_def cfg n)
    next
      case False
      then show ?thesis
        by (auto simp: main_def split: sum.splits option.splits)
    qed
  qed
next
  show "(fst (fst (NewSpotify w clientID clientSecret)) = None)
          = (snd (fst (NewSpotify w clientID clientSecret)) \<noteq> None)"
    by (auto simp: NewSpotify_def split: prod.splits)
qed

text \<open>A token endpoint that answers 401: the only request sent is the token request.\<close>

theorem NewSpotify_no_client_on_failure_witness:
  "fst (NewSpotify UnauthorizedEndpoint ''id'' ''secret'')
     = (None, Some (errors_New ''spotify token error''))
   \<and> main UnauthorizedEnv
     = (Panicked (panic (errors_New ''spotify token error'')), [TokenRequest ''id'' ''secret''])"
proof -
  have t: "token_ep UnauthorizedEnv = UnauthorizedEndpoint"
    by (simp add: UnauthorizedEnv_def)
  have "token_Do (token_ep UnauthorizedEnv) = Inr \<lparr> tk_StatusCode = 401, tk_Body = None \<rparr>
        \<and> tk_StatusCode \<lparr> tk_StatusCode = 401, tk_Body = None \<rparr> \<noteq> 200"
    by (simp add: UnauthorizedEnv_def UnauthorizedEndpoint_def)
  then have f: "token_NewRequest (token_ep UnauthorizedEnv) \<noteq> None
      \<or> (\<exists>err. token_Do (token_ep UnauthorizedEnv) = Inl err)
      \<or> (\<exists>resp. token_Do (token_ep UnauthorizedEnv) = Inr resp \<and> tk_StatusCode resp \<noteq> 200)"
    by blast
  have "\<exists>err. fst (NewSpotify UnauthorizedEndpoint ''id'' ''secret'') = (None, Some err)"
    using f NewSpotify_no_client_on_failure [of UnauthorizedEnv "''id''" "''secret''"]
    unfolding t by blast
  then show ?thesis
    by (simp add: NewSpotify_def getToken_def refreshSpotifyToken_def main_def
          UnauthorizedEnv_def UnauthorizedEndpoint_def)
qed

text \<open>
  \<^bold>\<open>C6.\<close> A playlist whose nested collection has no item, \<^verbatim>\<open>nil\<close> or empty, is
  translated to a playlist whose \<^verbatim>\<open>Tracks\<close> is \<^verbatim>\<open>nil\<close>; the other fields are copied.
  The function has no failing branch.
\<close>

theorem ConvertToMusicPlaylist_no_tracks:
  "len (pts_Items (sp_TracksCollection sp)) = 0 \<Longrightarrow>
     ConvertToMusicPlaylist sp
       = \<lparr> mp_Name = sp_Name sp, mp_PlaylistArt = sp_Images sp, mp_Tracks = NilSlice,
           mp_IntegrationID = sp_IntegrationID sp \<rparr>
     \<and> ConvertToMusicPlaylist_str sp
       = \<lparr> mps_Name = sp_Name sp, mps_PlaylistArt = sp_Images sp, mps_Tracks = NilSlice,
           mps_IntegrationID = sp_IntegrationID sp \<rparr>"
  by (simp add: ConvertToMusicPlaylist_def ConvertToMusicPlaylist_str_def)

text \<open>The Road Trip playlist with its items replaced by the empty, non-\<^verbatim>\<open>nil\<close> slice.\<close>

theorem ConvertToMusicPlaylist_no_tracks_witness:
  "len (pts_Items (sp_TracksCollection (RoadTrip\<lparr> sp_TracksCollection := \<lparr> pts_Items = Slice [] \<rparr> \<rparr>))) = 0
   \<and> mp_Tracks (ConvertToMusicPlaylist (RoadTrip\<lparr> sp_TracksCollection := \<lparr> pts_Items = Slice [] \<rparr> \<rparr>))
       = NilSlice
   \<and> mps_Tracks (ConvertToMusicPlaylist_str (RoadTrip\<lparr> sp_TracksCollection := \<lparr> pts_Items = Slice [] \<rparr> \<rparr>))
       = NilSlice"
proof -
  have z: "len (pts_Items (sp_TracksCollection
              (RoadTrip\<lparr> sp_TracksCollection := \<lparr> pts_Items = Slice [] \<rparr> \<rparr>))) = 0"
    by (simp add: len_def)
  show ?thesis
    using z ConvertToMusicPlaylist_no_tracks [OF z] by simp
qed

text \<open>
  \<^bold>\<open>C7.\<close> \<^verbatim>\<open>ConvertToMusicAlbum\<close> translates each nested track after setting its album
  to the parent, so every nested output track has the parent's name, images and
  release date as \<^verbatim>\<open>AlbumName\<close>, \<^verbatim>\<open>AlbumArt\<close> and \<^verbatim>\<open>AlbumReleaseDate\<close>, whatever
  album the nested track embedded.
\<close>

theorem ConvertToMusicAlbum_tracks_carry_parent:
  "len (mal_Tracks (ConvertToMusicAlbum sa)) = len (tr_Items (sa_TracksCollection sa))
   \<and> (\<forall>i < len (tr_Items (sa_TracksCollection sa)).
        elems (mal_Tracks (ConvertToMusicAlbum sa)) ! i
          = ConvertToMusicTrack (set_Album (elems (tr_Items (sa_TracksCollection sa)) ! i) sa)
        \<and> mt_AlbumName (elems (mal_Tracks (ConvertToMusicAlbum sa)) ! i) = sa_Name sa
        \<and> mt_AlbumArt (elems (mal_Tracks (ConvertToMusicAlbum sa)) ! i) = sa_Images sa
        \<and> mt_AlbumReleaseDate (elems (mal_Tracks (ConvertToMusicAlbum sa)) ! i)
            = sa_ReleaseDate sa)"
  by (simp add: len_def ConvertToMusicAlbum_Tracks ConvertToMusicTrack_eq st_Album_set_Album)

text \<open>An album with one nested track whose embedded album is the zero value.\<close>

theorem ConvertToMusicAlbum_tracks_carry_parent_witness:
  "st_Album (elems (tr_Items (sa_TracksCollection FullAlbum)) ! 0) = zero_SpotifyAlbum
   \<and> len (mal_Tracks (ConvertToMusicAlbum FullAlbum)) = 1
   \<and> mt_AlbumName (elems (mal_Tracks (ConvertToMusicAlbum FullAlbum)) ! 0) = ''LP''
   \<and> mt_AlbumArt (elems (mal_Tracks (ConvertToMusicAlbum FullAlbum)) ! 0)
       = Slice [\<lparr> ai_Height = 300, ai_Width = 300, ai_URL = ''cover'' \<rparr>]
   \<and> mt_AlbumReleaseDate (elems (mal_Tracks (ConvertToMusicAlbum FullAlbum)) ! 0)
       = ''2021-05-05''"
proof -
  have n: "len (tr_Items (sa_TracksCollection FullAlbum)) = 1"
    by (simp add: FullAlbum_def len_def)
  have z: "st_Album (elems (tr_Items (sa_TracksCollection FullAlbum)) ! 0) = zero_SpotifyAlbum"
    by (simp add: FullAlbum_def BareTrack_def)
  have f: "sa_Name FullAlbum = ''LP''"
      "sa_Images FullAlbum = Slice [\<lparr> ai_Height = 300, ai_Width = 300, ai_URL = ''cover'' \<rparr>]"
      "sa_ReleaseDate FullAlbum = ''2021-05-05''"
    by (simp_all add: FullAlbum_def)
  have "(0::nat) < 1"
    by simp
  then show ?thesis
    using z ConvertToMusicAlbum_tracks_carry_parent [of FullAlbum] unfolding n f by blast
qed

text \<open>
  \<^bold>\<open>C8.\<close> The translations are pure. Run on any memory that holds the input, with any
  growth policy, each of \<^verbatim>\<open>ConvertToMusicTrack\<close>, \<^verbatim>\<open>ConvertToMusicPlaylist\<close> and
  \<^verbatim>\<open>ConvertToMusicAlbum\<close> (and the two functions of the second revision) returns; the
  arrays of the input are the same afterwards, as is every array that existed before,
  so the input still holds the same value; and the value returned is the value the
  translation on values gives for the input, whatever the memory and the policy were.
  Two calls on equal inputs thus return equal values.
\<close>

theorem translations_pure:
  "(repr_SpotifyTrack st h stm \<longrightarrow>
      (\<exists>out h'. ConvertToMusicTrack_mem grow stm h = Some (out, h') \<and> frame h h'
         \<and> repr_SpotifyTrack st h' stm \<and> repr_MusicTrack h' out (ConvertToMusicTrack st))
      \<and> (\<exists>out h'. ConvertToMusicTrack_str_mem grow stm h = Some (out, h') \<and> frame h h'
         \<and> repr_SpotifyTrack st h' stm
         \<and> repr_MusicTrack_str h' out (ConvertToMusicTrack_str st)))
   \<and> (repr_SpotifyPlaylist sp h spm \<longrightarrow>
      (\<exists>out h'. ConvertToMusicPlaylist_mem grow spm h = Some (out, h') \<and> frame h h'
         \<and> repr_SpotifyPlaylist sp h' spm
         \<and> repr_MusicPlaylist h' out (ConvertToMusicPlaylist sp))
      \<and> (\<exists>out h'. ConvertToMusicPlaylist_str_mem grow spm h = Some (out, h') \<and> frame h h'
         \<and> repr_SpotifyPlaylist sp h' spm
         \<and> repr_MusicPlaylist_str h' out (ConvertToMusicPlaylist_str sp)))
   \<and> (repr_SpotifyAlbum sa h sam \<longrightarrow>
      (\<exists>out h'. ConvertToMusicAlbum_mem grow sam h = Some (out, h') \<and> frame h h'
         \<and> repr_SpotifyAlbum sa h' sam \<and> repr_MusicAlbum h' out (ConvertToMusicAlbum sa)))"
proof (intro conjI impI)
  assume t: "repr_SpotifyTrack st h stm"
  show "\<exists>out h'. ConvertToMusicTrack_mem grow stm h = Some (out, h') \<and> frame h h'
           \<and> repr_SpotifyTrack st h' stm \<and> repr_MusicTrack h' out (ConvertToMusicTrack st)"
    using ConvertToMusicTrack_mem_frame[OF t, of grow] repr_SpotifyTrack_frame[OF _ t]
    by blast
  show "\<exists>out h'. ConvertToMusicTrack_str_mem grow stm h = Some (out, h') \<and> frame h h'
           \<and> repr_SpotifyTrack st h' stm
           \<and> repr_MusicTrack_str h' out (ConvertToMusicTrack_str st)"
    using ConvertToMusicTrack_str_mem_frame[OF t, of grow] repr_SpotifyTrack_frame[OF _ t]
    by blast
next
  assume p: "repr_SpotifyPlaylist sp h spm"
  show "\<exists>out h'. ConvertToMusicPlaylist_mem grow spm h = Some (out, h') \<and> frame h h'
           \<and> repr_SpotifyPlaylist sp h' spm
           \<and> repr_MusicPlaylist h' out (ConvertToMusicPlaylist sp)"
    using ConvertToMusicPlaylist_mem_spec[OF p, of grow] repr_SpotifyPlaylist_frame[OF _ p]
    by blast
  show "\<exists>out h'. ConvertToMusicPlaylist_str_mem grow spm h = Some (out, h') \<and> frame h h'
           \<and> repr_SpotifyPlaylist sp h' spm
           \<and> repr_MusicPlaylist_str h' out (ConvertToMusicPlaylist_str sp)"
    using ConvertToMusicPlaylist_str_mem_spec[OF p, of grow]
      repr_SpotifyPlaylist_frame[OF _ p]
    by blast
next
  assume a: "repr_SpotifyAlbum sa h sam"
  show "\<exists>out h'. ConvertToMusicAlbum_mem grow sam h = Some (out, h') \<and> frame h h'
           \<and> repr_SpotifyAlbum sa h' sam \<and> repr_MusicAlbum h' out (ConvertToMusicAlbum sa)"
    using ConvertToMusicAlbum_mem_spec[OF a, of grow] repr_SpotifyAlbum_frame[OF _ a]
    by blast
qed

text \<open>The track, the playlist and the album of the concrete memory, with the doubling policy.\<close>

theorem translations_pure_witness:
  "repr_SpotifyTrack BareTrack ExampleMemory BareTrack_mem
   \<and> repr_SpotifyPlaylist RoadTrip ExampleMemory RoadTrip_mem
   \<and> repr_SpotifyAlbum FullAlbum ExampleMemory FullAlbum_mem
   \<and> (\<exists>out h'. ConvertToMusicTrack_mem double_cap BareTrack_mem ExampleMemory = Some (out, h')
         \<and> frame ExampleMemory h' \<and> repr_SpotifyTrack BareTrack h' BareTrack_mem
         \<and> repr_MusicTrack h' out (ConvertToMusicTrack BareTrack))
   \<and> (\<exists>out h'. ConvertToMusicPlaylist_str_mem double_cap RoadTrip_mem ExampleMemory
           = Some (out, h')
         \<and> frame ExampleMemory h' \<and> repr_SpotifyPlaylist RoadTrip h' RoadTrip_mem
         \<and> repr_MusicPlaylist_str h' out (ConvertToMusicPlaylist_str RoadTrip))
   \<and> (\<exists>out h'. ConvertToMusicAlbum_mem double_cap FullAlbum_mem ExampleMemory = Some (out, h')
         \<and> frame ExampleMemory h' \<and> repr_SpotifyAlbum FullAlbum h' FullAlbum_mem
         \<and> repr_MusicAlbum h' out (ConvertToMusicAlbum FullAlbum))"
proof -
  have t: "repr_SpotifyTrack BareTrack ExampleMemory BareTrack_mem"
    by (simp add: BareTrack_def BareTrack_mem_def ExampleMemory_def zero_SpotifyAlbum_def
          zero_SpotifyAlbum_mem_def repr_slice_def hread_def)
  have p: "repr_SpotifyPlaylist RoadTrip ExampleMemory RoadTrip_mem"
    by (simp add: RoadTrip_def RoadTrip_mem_def ExampleMemory_def repr_SpotifyPlaylist_def
          repr_slice_def hread_def)
  have a: "repr_SpotifyAlbum FullAlbum ExampleMemory FullAlbum_mem"
    by (simp add: FullAlbum_def FullAlbum_mem_def BareTrack_def BareTrack_mem_def
          ExampleMemory_def zero_SpotifyAlbum_def zero_SpotifyAlbum_mem_def repr_slice_def
          hread_def)
  show ?thesis
    using t p a
      translations_pure[of BareTrack ExampleMemory BareTrack_mem double_cap
        RoadTrip RoadTrip_mem FullAlbum FullAlbum_mem]
    by blast
qed

text \<open>
  \<^bold>\<open>C9.\<close> In \<^verbatim>\<open>NewMusicSearchResultFromSpotify\<close> the artists of every output track are
  built from the artists of the track's embedded album, not from the track's own; on
  some track whose own artists differ from its album's, this translation and
  \<^verbatim>\<open>ConvertToMusicTrack\<close> give different artists.
\<close>

theorem search_artists_from_album:
  "len (msr_Tracks (NewMusicSearchResultFromSpotify r)) = len (tr_Items (sr_ResultCollection r))
   \<and> (\<forall>i < len (tr_Items (sr_ResultCollection r)).
        elems (mt_Artists (elems (msr_Tracks (NewMusicSearchResultFromSpotify r)) ! i))
        = map (\<lambda>a. \<lparr> ma_Name = ar_Name a, ma_IntegrationID = ar_IntegrationID a \<rparr>)
            (elems (sa_Artists (st_Album (elems (tr_Items (sr_ResultCollection r)) ! i)))))
   \<and> (\<exists>t. elems (st_Artists t) \<noteq> elems (sa_Artists (st_Album t))
        \<and> elems (mt_Artists (elems (msr_Tracks (NewMusicSearchResultFromSpotify
              \<lparr> sr_ResultCollection = SpotifyTracksResult (Slice [t]),
                sr_AlbumCollection = \<lparr> ars_Items = NilSlice \<rparr>,
                sr_PlaylistCollection = \<lparr> prs_Items = NilSlice \<rparr> \<rparr>)) ! 0))
          \<noteq> elems (mt_Artists (ConvertToMusicTrack t)))"
proof (intro conjI)
  show "len (msr_Tracks (NewMusicSearchResultFromSpotify r))
          = len (tr_Items (sr_ResultCollection r))"
    by (simp add: len_def NewMusicSearchResultFromSpotify_Tracks)
  show "\<forall>i < len (tr_Items (sr_ResultCollection r)).
        elems (mt_Artists (elems (msr_Tracks (NewMusicSearchResultFromSpotify r)) ! i))
        = map (\<lambda>a. \<lparr> ma_Name = ar_Name a, ma_IntegrationID = ar_IntegrationID a \<rparr>)
            (elems (sa_Artists (st_Album (elems (tr_Items (sr_ResultCollection r)) ! i))))"
    by (simp add: len_def NewMusicSearchResultFromSpotify_Tracks)
  have "elems (st_Artists FeaturedTrack) \<noteq> elems (sa_Artists (st_Album FeaturedTrack))
        \<and> elems (mt_Artists (elems (msr_Tracks (NewMusicSearchResultFromSpotify
              \<lparr> sr_ResultCollection = SpotifyTracksResult (Slice [FeaturedTrack]),
                sr_AlbumCollection = \<lparr> ars_Items = NilSlice \<rparr>,
                sr_PlaylistCollection = \<lparr> prs_Items = NilSlice \<rparr> \<rparr>)) ! 0))
          \<noteq> elems (mt_Artists (ConvertToMusicTrack FeaturedTrack))"
    by (simp add: NewMusicSearchResultFromSpotify_Tracks ConvertToMusicTrack_eq
          FeaturedTrack_def)
  then show "\<exists>t. elems (st_Artists t) \<noteq> elems (sa_Artists (st_Album t))
        \<and> elems (mt_Artists (elems (msr_Tracks (NewMusicSearchResultFromSpotify
              \<lparr> sr_ResultCollection = SpotifyTracksResult (Slice [t]),
                sr_AlbumCollection = \<lparr> ars_Items = NilSlice \<rparr>,
                sr_PlaylistCollection = \<lparr> prs_Items = NilSlice \<rparr> \<rparr>)) ! 0))
          \<noteq> elems (mt_Artists (ConvertToMusicTrack t))"
    by (rule exI)
qed

text \<open>The track by Ann and Bob on an album credited to Various.\<close>

theorem search_artists_from_album_witness:
  "map ma_Name (elems (mt_Artists (elems (msr_Tracks (NewMusicSearchResultFromSpotify
       \<lparr> sr_ResultCollection = SpotifyTracksResult (Slice [FeaturedTrack]),
         sr_AlbumCollection = \<lparr> ars_Items = NilSlice \<rparr>,
         sr_PlaylistCollection = \<lparr> prs_Items = NilSlice \<rparr> \<rparr>)) ! 0)))
     = [''Various'']
   \<and> map ma_Name (elems (mt_Artists (ConvertToMusicTrack FeaturedTrack))) = [''Ann'', ''Bob'']"
proof -
  let ?r = "\<lparr> sr_ResultCollection = SpotifyTracksResult (Slice [FeaturedTrack]),
         sr_AlbumCollection = \<lparr> ars_Items = NilSlice \<rparr>,
         sr_PlaylistCollection = \<lparr> prs_Items = NilSlice \<rparr> \<rparr>"
  have n: "len (tr_Items (sr_ResultCollection ?r)) = 1"
    by (simp add: len_def)
  have "elems (mt_Artists (elems (msr_Tracks (NewMusicSearchResultFromSpotify ?r)) ! 0))
        = map (\<lambda>a. \<lparr> ma_Name = ar_Name a, ma_IntegrationID = ar_IntegrationID a \<rparr>)
            (elems (sa_Artists (st_Album (elems (tr_Items (sr_ResultCollection ?r)) ! 0))))"
    using search_artists_from_album [of ?r] unfolding n by simp
  then show ?thesis
    by (simp add: FeaturedTrack_def ConvertToMusicTrack_eq)
qed

text \<open>
  \<^bold>\<open>C10.\<close> In the list revision \<^verbatim>\<open>ConvertToMusicTrack\<close> and \<^verbatim>\<open>ConvertToMusicAlbum\<close>
  never return \<^verbatim>\<open>nil\<close> for \<^verbatim>\<open>Artists\<close>: with no source artist it is the empty list.
  The \<^verbatim>\<open>Tracks\<close> of a playlist with no item is \<^verbatim>\<open>nil\<close>.
\<close>

theorem Artists_never_nil:
  "mt_Artists (ConvertToMusicTrack st) \<noteq> NilSlice
   \<and> mal_Artists (ConvertToMusicAlbum sa) \<noteq> NilSlice
   \<and> (len (st_Artists st) = 0 \<longrightarrow> mt_Artists (ConvertToMusicTrack st) = Slice [])
   \<and> (len (sa_Artists sa) = 0 \<longrightarrow> mal_Artists (ConvertToMusicAlbum sa) = Slice [])
   \<and> (len (pts_Items (sp_TracksCollection sp)) = 0
        \<longrightarrow> mp_Tracks (ConvertToMusicPlaylist sp) = NilSlice)"
  by (simp add: ConvertToMusicTrack_eq ConvertToMusicAlbum_Artists
        ConvertToMusicPlaylist_Tracks len_def)

text \<open>A track, an album and a playlist with nothing nested.\<close>

theorem Artists_never_nil_witness:
  "mt_Artists (ConvertToMusicTrack BareTrack) = Slice []
   \<and> mal_Artists (ConvertToMusicAlbum zero_SpotifyAlbum) = Slice []
   \<and> mp_Tracks (ConvertToMusicPlaylist zero_SpotifyPlaylist) = NilSlice"
proof -
  have z: "len (st_Artists BareTrack) = 0" "len (sa_Artists zero_SpotifyAlbum) = 0"
      "len (pts_Items (sp_TracksCollection zero_SpotifyPlaylist)) = 0"
    by (simp_all add: BareTrack_def zero_SpotifyAlbum_def zero_SpotifyPlaylist_def len_def)
  show ?thesis
    using z Artists_never_nil [of BareTrack zero_SpotifyAlbum zero_SpotifyPlaylist] by simp
qed

end
